theory Spec2Isabelle
  imports Main "HOL-Library.Char_ord" "HOL-Library.List_Lexorder" "HOL-Library.Multiset"
    "HOL-Library.Word"
begin

unbundle bit_operations_syntax

section \<open>The exporter's import context\<close>

text \<open>
  A shallow embedding of the exporter's \<^verbatim>\<open>importContext\<close> (the discovery-to-declaration
  pipeline of the Terraform provider's exporter). Go strings are byte sequences, so they are
  \<^typ>\<open>string\<close> (a list of 8-bit characters); a Go map is a partial function; a
  \<^verbatim>\<open>map[string]struct{}\<close> is a set; methods that mutate the context take it and return
  the new one. A buffered channel is the FIFO list of what was sent and not yet received
  (the queues are created with room for 100000 entries, a send on a full queue would
  block; the model does not bound them).
\<close>

subsection \<open>Data\<close>

text \<open>
  The live data handle of a resource (\<^verbatim>\<open>*schema.ResourceData\<close>) is opaque to the exporter's
  core. The model keeps what the core reads from it: \<^verbatim>\<open>Data.State()\<close>, which is nil
  (\<open>None\<close>) or carries the attribute map of the instance state.
\<close>

record resourceData =
  dState :: "(string \<rightharpoonup> string) option"

text \<open>
  \<^verbatim>\<open>resource\<close>: the fields the sources read and write. \<^verbatim>\<open>Add\<close> writes
  \<^verbatim>\<open>r.Mode\<close> through the pointer, so operations that do so return the resource too.
\<close>

record resource =
  Resource :: string
  ID :: string
  Name :: string
  Mode :: string
  Attribute :: string
  Value :: string
  Data :: resourceData

record instanceApproximation =
  Attributes :: "string \<rightharpoonup> string"

record resourceApproximation =
  sr_Mode :: string
  sr_Module :: string
  sr_Type :: string
  sr_Name :: string
  Instances :: "instanceApproximation list"

text \<open>
  The match policies of a reference. \<^verbatim>\<open>MatchType\<close> is a string type in Go, so a
  reference may carry a value that is none of the declared policies: \<open>MatchOther\<close>.
\<close>

datatype MatchType =
  MatchDefault | MatchExact | MatchCaseInsensitive | MatchPrefix | MatchRegexp
  | MatchOther string

text \<open>
  A compiled pattern (\<^verbatim>\<open>*regexp.Regexp\<close>, Go's standard library) is modelled by what
  \<^verbatim>\<open>FindStringSubmatchIndex\<close> returns on a text: the empty list for nil (no match),
  else the pairs of start and end offsets of the whole match and of every capture group,
  \<open>-1\<close> for a group that took no part in the match.
\<close>

type_synonym regexp = "string \<Rightarrow> int list"

record reference =
  Path :: string
  ref_Resource :: string
  Match :: string
  ref_MatchType :: MatchType
  File :: bool
  Variable :: bool
  Regexp :: "regexp option"

text \<open>
  \<^verbatim>\<open>importable\<close>: the collaborator's description of one resource kind. \<^verbatim>\<open>ir_Name\<close>
  is the optional name policy.
\<close>

record importable =
  Service :: string
  ir_Name :: "(resourceData \<Rightarrow> string) option"
  AccountLevel :: bool
  WorkspaceLevel :: bool
  Depends :: "reference list"

text \<open>
  \<^verbatim>\<open>regexFix\<close>: a pattern with its replacement. The pattern is modelled by the function
  \<^verbatim>\<open>ReplaceAllString\<close> computes for it, given the replacement.
\<close>

record regexFix =
  ReplaceAllString :: "string \<Rightarrow> string \<Rightarrow> string"
  Replacement :: string

record 'st importContext =
  ic_Module :: string
  Importables :: "string \<rightharpoonup> importable"
  Resources :: "string set"
  Directory :: string
  ic_nameFixes :: "regexFix list"
  variables :: "string \<rightharpoonup> string"
  channels :: "string \<rightharpoonup> resource list"
  defaultChannel :: "resource list"
  State :: 'st
  Scope :: "resource list"
  incremental :: bool
  noFormat :: bool
  services :: "string set"
  listing :: string
  generateDeclaration :: bool
  meAdmin :: bool
  prefix :: string
  accountLevel :: bool
  shImports :: "string set"
  notebooksFormat :: string
  updatedSinceStr :: string
  updatedSinceMs :: int
  waitGroup :: nat
  testEmits :: "(string \<rightharpoonup> bool) option"
  importing :: "string \<rightharpoonup> bool"

text \<open>
  The sources under study call methods of \<^verbatim>\<open>resource\<close>, \<^verbatim>\<open>reference\<close> and
  \<^verbatim>\<open>stateApproximation\<close> that are declared in another file of the package. They are
  parameters of the model: every theorem holds for whatever these methods compute, and the
  type \<open>'st\<close> of the State Approximation is left open.
\<close>

record 'st externs =
  MatchPair :: "resource \<Rightarrow> string \<times> string"
  String :: "resource \<Rightarrow> string"
  MatchAttribute :: "reference \<Rightarrow> string"
  MatchTypeValue :: "reference \<Rightarrow> MatchType"
  stHas :: "'st \<Rightarrow> resource \<Rightarrow> bool"
  stGet :: "'st \<Rightarrow> string \<Rightarrow> string \<Rightarrow> string \<Rightarrow> resourceApproximation option"
  stResources :: "'st \<Rightarrow> string \<Rightarrow> resourceApproximation list"
  stAppend :: "'st \<Rightarrow> resourceApproximation \<Rightarrow> 'st"

subsection \<open>The Identity Tracker, Emit and Add\<close>

definition isImporting :: "'st importContext \<Rightarrow> string \<Rightarrow> bool \<times> bool" where
  "isImporting ic s = (case importing ic s of None \<Rightarrow> (False, False) | Some v \<Rightarrow> (v, True))"

definition HasInState :: "'st externs \<Rightarrow> 'st importContext \<Rightarrow> resource \<Rightarrow> bool \<Rightarrow> bool" where
  "HasInState E ic r onlyAdded =
     (let (v, visiting) = isImporting ic (String E r) in
      if visiting \<and> (v \<or> \<not> onlyAdded) then True
      else stHas E (State ic) r)"

definition Has :: "'st externs \<Rightarrow> 'st importContext \<Rightarrow> resource \<Rightarrow> bool" where
  "Has E ic r = HasInState E ic r False"

definition setImportingState :: "'st importContext \<Rightarrow> string \<Rightarrow> bool \<Rightarrow> 'st importContext" where
  "setImportingState ic s state = ic\<lparr>importing := (importing ic)(s \<mapsto> state)\<rparr>"

definition isServiceEnabled :: "'st importContext \<Rightarrow> string \<Rightarrow> bool" where
  "isServiceEnabled ic service = (service \<in> services ic)"

text \<open>
  \<^verbatim>\<open>Add\<close>. The Scope is an ordered, append-only sequence (\<^verbatim>\<open>Scope.Append\<close>);
  the instance's attribute map is a copy of the state's with the synthetic \<open>id\<close>.
\<close>

definition Add :: "'st externs \<Rightarrow> 'st importContext \<Rightarrow> resource \<Rightarrow> 'st importContext \<times> resource" where
  "Add E ic r =
     (if HasInState E ic r True then (ic, r)
      else
        let ic1 = setImportingState ic (String E r) True in
        case dState (Data r) of
          None \<Rightarrow> (ic1, r)
        | Some attrs \<Rightarrow>
            let r1 = (if Mode r = [] then r\<lparr>Mode := ''managed''\<rparr> else r);
                inst = \<lparr>Attributes = attrs(''id'' \<mapsto> ID r1)\<rparr>;
                ic2 = ic1\<lparr>State := stAppend E (State ic1)
                         \<lparr>sr_Mode = Mode r1, sr_Module = ic_Module ic1, sr_Type = Resource r1,
                          sr_Name = Name r1, Instances = [inst]\<rparr>\<rparr>
            in (ic2\<lparr>Scope := Scope ic2 @ [r1]\<rparr>, r1))"

definition Emit :: "'st externs \<Rightarrow> 'st importContext \<Rightarrow> resource \<Rightarrow> 'st importContext" where
  "Emit E ic r =
     (let (a, v) = MatchPair E r in
      if v = [] then ic
      else case Importables ic (Resource r) of
        None \<Rightarrow> ic
      | Some ir \<Rightarrow>
          if \<not> isServiceEnabled ic (Service ir) then ic
          else if Has E ic r then ic
          else case testEmits ic of
            Some te \<Rightarrow> ic\<lparr>testEmits := Some (te(String E r \<mapsto> True))\<rparr>
          | None \<Rightarrow>
              let ic1 = setImportingState ic (String E r) False in
              if Resource r \<notin> Resources ic1 then ic1
              else if accountLevel ic1 \<and> \<not> AccountLevel ir then ic1
              else case channels ic1 (Resource r) of
                Some ch \<Rightarrow> ic1\<lparr>waitGroup := waitGroup ic1 + 1,
                               channels := (channels ic1)(Resource r \<mapsto> ch @ [r])\<rparr>
              | None \<Rightarrow> ic1\<lparr>waitGroup := waitGroup ic1 + 1,
                            defaultChannel := defaultChannel ic1 @ [r]\<rparr>)"

subsection \<open>Go's strings and patterns\<close>

text \<open>
  A run-time panic of the Go code is a value of the model.
\<close>

datatype panic =
  SliceBoundsOutOfRange | IndexOutOfRange | NilDereference | NegativeWaitGroupCounter
  | InterfaceConversion

text \<open>
  \<^verbatim>\<open>strings.HasPrefix\<close>, \<^verbatim>\<open>strings.Join\<close> with a separator, and
  \<^verbatim>\<open>strings.ReplaceAll\<close> for a pattern of one byte (the only use the sources make of it).
  \<^verbatim>\<open>strings.ToLower\<close> is modelled on ASCII text, where it lowers the letters A to Z and
  copies every other byte; Go lowers the letters of other scripts by its Unicode tables,
  which the model does not have, so names with bytes above 127 are outside what the model
  says about lower-casing.
\<close>

definition HasPrefix :: "string \<Rightarrow> string \<Rightarrow> bool" where
  "HasPrefix s p = (length p \<le> length s \<and> take (length p) s = p)"

fun Join :: "string list \<Rightarrow> string \<Rightarrow> string" where
  "Join [] sep = []"
| "Join [x] sep = x"
| "Join (x # y # ys) sep = x @ sep @ Join (y # ys) sep"

definition ReplaceAll :: "string \<Rightarrow> char \<Rightarrow> string \<Rightarrow> string" where
  "ReplaceAll s old new = concat (map (\<lambda>c. if c = old then new else [c]) s)"

definition isUpper :: "char \<Rightarrow> bool" where
  "isUpper c = (CHR ''A'' \<le> c \<and> c \<le> CHR ''Z'')"

definition toLowerByte :: "char \<Rightarrow> char" where
  "toLowerByte c = (if isUpper c then char_of (of_char c + (32::nat)) else c)"

definition ToLower :: "string \<Rightarrow> string" where
  "ToLower s = map toLowerByte s"

text \<open>
  \<^verbatim>\<open>s[a:b]\<close> and \<^verbatim>\<open>s[a:]\<close> on a string, with Go's bounds check.
\<close>

definition slice :: "string \<Rightarrow> int \<Rightarrow> int \<Rightarrow> panic + string" where
  "slice s a b =
     (if 0 \<le> a \<and> a \<le> b \<and> b \<le> int (length s) then Inr (take (nat (b - a)) (drop (nat a) s))
      else Inl SliceBoundsOutOfRange)"

definition sliceFrom :: "string \<Rightarrow> int \<Rightarrow> panic + string" where
  "sliceFrom s a = slice s a (int (length s))"

text \<open>
  \<^verbatim>\<open>FindStringSubmatch\<close> of Go's \<^verbatim>\<open>regexp\<close>: nil when there is no match, else the text
  of the whole match and of every capture group, read off the same offsets that
  \<^verbatim>\<open>FindStringSubmatchIndex\<close> returns; a group that took no part gives the empty string.
\<close>

fun pairs :: "int list \<Rightarrow> (int \<times> int) list" where
  "pairs (a # b # xs) = (a, b) # pairs xs"
| "pairs xs = []"

definition FindStringSubmatch :: "regexp \<Rightarrow> string \<Rightarrow> string list" where
  "FindStringSubmatch re s =
     map (\<lambda>(a, b). if 0 \<le> a then take (nat (b - a)) (drop (nat a) s) else []) (pairs (re s))"

subsection \<open>Tokens and traversals of the output language\<close>

datatype TokenType =
  TokenOQuote | TokenCQuote | TokenQuotedLit | TokenIdent | TokenDot | TokenOBrack
  | TokenCBrack | TokenComma

record Token =
  Type :: TokenType
  Bytes :: string

datatype Traverser = TraverseRoot string | TraverseAttr string

text \<open>
  \<^verbatim>\<open>hclwrite.TokensForTraversal\<close>: the root's name, then a dot and a name for every
  attribute step.
\<close>

fun TokensForTraverser :: "Traverser \<Rightarrow> Token list" where
  "TokensForTraverser (TraverseRoot n) = [\<lparr>Type = TokenIdent, Bytes = n\<rparr>]"
| "TokensForTraverser (TraverseAttr n) =
     [\<lparr>Type = TokenDot, Bytes = ''.''\<rparr>, \<lparr>Type = TokenIdent, Bytes = n\<rparr>]"

definition TokensForTraversal :: "Traverser list \<Rightarrow> Token list" where
  "TokensForTraversal tr = concat (map TokensForTraverser tr)"

definition genTraversalTokens :: "resourceApproximation \<Rightarrow> string \<Rightarrow> Traverser list" where
  "genTraversalTokens sr pick =
     (if sr_Mode sr = ''data''
      then [TraverseRoot ''data'', TraverseAttr (sr_Type sr), TraverseAttr (sr_Name sr),
            TraverseAttr pick]
      else [TraverseRoot (sr_Type sr), TraverseAttr (sr_Name sr), TraverseAttr pick])"

definition maybeAddQuoteCharacter :: "string \<Rightarrow> string" where
  "maybeAddQuoteCharacter s =
     ReplaceAll (ReplaceAll s (CHR 0x5C) [CHR 0x5C, CHR 0x5C]) (CHR 0x22) [CHR 0x5C, CHR 0x22]"

subsection \<open>The Reference Resolver\<close>

text \<open>
  The linear scan of \<^verbatim>\<open>Find\<close>: the instances of one resource, then the resources of the
  kind, in order; the first instance that matches ends the scan. An attribute value is a
  string (\<^verbatim>\<open>Add\<close> copies them from a map of strings), so the type assertion
  \<^verbatim>\<open>v.(string)\<close> holds.
\<close>

fun scanInstances :: "MatchType \<Rightarrow> string \<Rightarrow> string \<Rightarrow> string \<Rightarrow> instanceApproximation list
    \<Rightarrow> string option" where
  "scanInstances mt val matchValue attr [] = None"
| "scanInstances mt val matchValue attr (i # is) =
     (case Attributes i attr of
        None \<Rightarrow> scanInstances mt val matchValue attr is
      | Some strValue \<Rightarrow>
          let matched =
                (case mt of
                   MatchCaseInsensitive \<Rightarrow> ToLower strValue = matchValue
                 | MatchPrefix \<Rightarrow> HasPrefix val strValue
                 | _ \<Rightarrow> False)
          in if \<not> matched then scanInstances mt val matchValue attr is
             else Some strValue)"

fun scanResources :: "MatchType \<Rightarrow> string \<Rightarrow> string \<Rightarrow> string \<Rightarrow> string
    \<Rightarrow> resourceApproximation list \<Rightarrow> string \<times> Traverser list option" where
  "scanResources mt val matchValue attr pick [] = ([], None)"
| "scanResources mt val matchValue attr pick (sr # srs) =
     (case scanInstances mt val matchValue attr (Instances sr) of
        Some strValue \<Rightarrow> (strValue, Some (genTraversalTokens sr pick))
      | None \<Rightarrow> scanResources mt val matchValue attr pick srs)"

text \<open>
  The first part of \<^verbatim>\<open>Find\<close>: the value to look up, or the early return of the regexp
  policy (\<open>None\<close>).
\<close>

definition findMatchValue :: "reference \<Rightarrow> string \<Rightarrow> string option" where
  "findMatchValue ref val =
     (if ref_MatchType ref = MatchRegexp then
        (case Regexp ref of
           None \<Rightarrow> None
         | Some re \<Rightarrow>
             let res = FindStringSubmatch re val in
             if length res < 2 then None else Some (res ! 1))
      else if ref_MatchType ref = MatchCaseInsensitive then Some (ToLower val)
      else if ref_MatchType ref = MatchExact \<or> ref_MatchType ref = MatchDefault then Some val
      else Some [])"

definition Find :: "'st externs \<Rightarrow> 'st importContext \<Rightarrow> resource \<Rightarrow> string \<Rightarrow> reference
    \<Rightarrow> string \<times> Traverser list option" where
  "Find E ic r pick ref =
     (case findMatchValue ref (Value r) of
        None \<Rightarrow> ([], None)
      | Some matchValue \<Rightarrow>
          let scan = scanResources (ref_MatchType ref) (Value r) matchValue (Attribute r) pick
                       (stResources E (State ic) (Resource r)) in
          if ref_MatchType ref = MatchExact \<or> ref_MatchType ref = MatchDefault
             \<or> ref_MatchType ref = MatchRegexp \<or> ref_MatchType ref = MatchCaseInsensitive
          then
            (case stGet E (State ic) (Resource r) (Attribute r) matchValue of
               Some sr \<Rightarrow> (matchValue, Some (genTraversalTokens sr pick))
             | None \<Rightarrow>
                 if ref_MatchType ref \<noteq> MatchCaseInsensitive then ([], None) else scan)
          else scan)"

definition getTraversalTokens :: "'st externs \<Rightarrow> 'st importContext \<Rightarrow> reference \<Rightarrow> string
    \<Rightarrow> panic + Token list option" where
  "getTraversalTokens E ic ref val =
     (let matchType = MatchTypeValue E ref;
          attr = MatchAttribute E ref;
          (attrValue, traversal) =
             Find E ic \<lparr>Resource = ref_Resource ref, ID = [], Name = [], Mode = [],
                        Attribute = attr, Value = val, Data = \<lparr>dState = None\<rparr>\<rparr> attr ref
      in case traversal of
        None \<Rightarrow> Inr None
      | Some tr \<Rightarrow>
          if matchType = MatchExact \<or> matchType = MatchDefault \<or> matchType = MatchCaseInsensitive
          then Inr (Some (TokensForTraversal tr))
          else if matchType = MatchPrefix then
            (case sliceFrom val (int (length attrValue)) of
               Inl p \<Rightarrow> Inl p
             | Inr rest \<Rightarrow>
                 Inr (Some ([\<lparr>Type = TokenOQuote, Bytes = [CHR 0x22, CHR ''$'', CHR ''{'']\<rparr>]
                   @ TokensForTraversal tr
                   @ [\<lparr>Type = TokenCQuote, Bytes = ''}''\<rparr>,
                      \<lparr>Type = TokenQuotedLit, Bytes = maybeAddQuoteCharacter rest\<rparr>,
                      \<lparr>Type = TokenCQuote, Bytes = [CHR 0x22]\<rparr>])))
          else if matchType = MatchRegexp then
            (case Regexp ref of
               None \<Rightarrow> Inl NilDereference
             | Some re \<Rightarrow>
                 let indices = re val in
                 if length indices = 4 then
                   (case slice val 0 (indices ! 2) of
                      Inl p \<Rightarrow> Inl p
                    | Inr before \<Rightarrow>
                        (case sliceFrom val (indices ! 3) of
                           Inl p \<Rightarrow> Inl p
                         | Inr after \<Rightarrow>
                             Inr (Some ([\<lparr>Type = TokenOQuote, Bytes = [CHR 0x22]\<rparr>,
                                \<lparr>Type = TokenQuotedLit, Bytes = maybeAddQuoteCharacter before\<rparr>,
                                \<lparr>Type = TokenOQuote, Bytes = ''${''\<rparr>]
                               @ TokensForTraversal tr
                               @ [\<lparr>Type = TokenCQuote, Bytes = ''}''\<rparr>,
                                  \<lparr>Type = TokenQuotedLit, Bytes = maybeAddQuoteCharacter after\<rparr>,
                                  \<lparr>Type = TokenCQuote, Bytes = [CHR 0x22]\<rparr>]))))
                 else Inr None)
          else Inr None)"

text \<open>
  \<^verbatim>\<open>dependsRe\<close> is the pattern \<^verbatim>\<open>(\.[\d]+)\<close>: a dot and the longest run of one or
  more decimal digits after it. \<^verbatim>\<open>dependsReReplaceAll\<close> is its
  \<^verbatim>\<open>ReplaceAllString\<close>: the text is read from the left, every match is replaced, and
  reading goes on after the match.
\<close>

definition isDigit :: "char \<Rightarrow> bool" where
  "isDigit c = (CHR ''0'' \<le> c \<and> c \<le> CHR ''9'')"

function dependsReReplaceAll :: "string \<Rightarrow> string \<Rightarrow> string" where
  "dependsReReplaceAll [] repl = []"
| "dependsReReplaceAll (c # cs) repl =
     (if c = CHR ''.'' \<and> cs \<noteq> [] \<and> isDigit (hd cs)
      then repl @ dependsReReplaceAll (dropWhile isDigit cs) repl
      else c # dependsReReplaceAll cs repl)"
  by pat_completeness auto
termination
  by (relation "measure (\<lambda>(s, r). length s)") (auto simp add: length_dropWhile_le less_Suc_eq_le)

definition variable :: "'st importContext \<Rightarrow> string \<Rightarrow> string \<Rightarrow> Token list \<times> 'st importContext" where
  "variable ic name desc =
     (TokensForTraversal [TraverseRoot ''var'', TraverseAttr name],
      ic\<lparr>variables := (variables ic)(name \<mapsto> desc)\<rparr>)"

text \<open>
  The loop of \<^verbatim>\<open>reference\<close> over the declared references of the kind. \<open>lit\<close> stands for
  \<^verbatim>\<open>hclwrite.TokensForValue(ctyValue)\<close>, the tokens of the literal value.
\<close>

fun referenceLoop :: "'st externs \<Rightarrow> 'st importContext \<Rightarrow> reference list \<Rightarrow> string \<Rightarrow> string list
    \<Rightarrow> string \<Rightarrow> Token list \<Rightarrow> panic + Token list \<times> 'st importContext" where
  "referenceLoop E ic [] match path val lit = Inr (lit, ic)"
| "referenceLoop E ic (d # ds) match path val lit =
     (if Path d \<noteq> match then referenceLoop E ic ds match path val lit
      else if File d then
        Inr ([\<lparr>Type = TokenOQuote, Bytes = [CHR 0x22]\<rparr>,
              \<lparr>Type = TokenQuotedLit, Bytes = ''${path.module}/'' @ val\<rparr>,
              \<lparr>Type = TokenCQuote, Bytes = [CHR 0x22]\<rparr>], ic)
      else if Variable d then
        (case path of
           [] \<Rightarrow> Inl IndexOutOfRange
         | p0 # ps \<Rightarrow> Inr (variable ic (p0 @ ''_'' @ val) []))
      else
        (case getTraversalTokens E ic d val of
           Inl p \<Rightarrow> Inl p
         | Inr (Some tokens) \<Rightarrow> Inr (tokens, ic)
         | Inr None \<Rightarrow> referenceLoop E ic ds match path val lit))"

definition reference :: "'st externs \<Rightarrow> 'st importContext \<Rightarrow> importable \<Rightarrow> string list \<Rightarrow> string
    \<Rightarrow> Token list \<Rightarrow> panic + Token list \<times> 'st importContext" where
  "reference E ic i path val lit =
     referenceLoop E ic (Depends i) (dependsReReplaceAll (Join path ''.'') []) path val lit"

subsection \<open>The order of the linear scan, and reading back an escaped literal\<close>

text \<open>
  The instances of a list of resources in the order \<^verbatim>\<open>Find\<close> visits them, each with its
  resource; and the test of the prefix policy on one instance. They state which instance
  the scan finds.
\<close>

definition instancesInScanOrder ::
    "resourceApproximation list \<Rightarrow> (resourceApproximation \<times> instanceApproximation) list" where
  "instancesInScanOrder srs = concat (map (\<lambda>sr. map (\<lambda>i. (sr, i)) (Instances sr)) srs)"

definition prefixCandidate ::
    "string \<Rightarrow> string \<Rightarrow> resourceApproximation \<times> instanceApproximation \<Rightarrow> bool" where
  "prefixCandidate attr v =
     (\<lambda>(sr, i). case Attributes i attr of None \<Rightarrow> False | Some c \<Rightarrow> HasPrefix v c)"

text \<open>
  \<^verbatim>\<open>maybeAddQuoteCharacter\<close> writes a backslash before every backslash and every double
  quote. \<open>unquote\<close> undoes these two escapes: a backslash stands for the byte after it.
\<close>

fun unquote :: "string \<Rightarrow> string" where
  "unquote (a # b # cs) = (if a = CHR 0x5C then b # unquote cs else a # unquote (b # cs))"
| "unquote cs = cs"

subsection \<open>Sequences of Emit and Add\<close>

datatype pipelineOp = EmitOp resource | AddOp resource

fun runOps :: "'st externs \<Rightarrow> 'st importContext \<Rightarrow> pipelineOp list \<Rightarrow> 'st importContext" where
  "runOps E ic [] = ic"
| "runOps E ic (EmitOp r # ops) = runOps E (Emit E ic r) ops"
| "runOps E ic (AddOp r # ops) = runOps E (fst (Add E ic r)) ops"

subsection \<open>A concrete State Approximation and example data\<close>

text \<open>
  Modelled from the spec: the methods of \<^verbatim>\<open>resource\<close>, \<^verbatim>\<open>reference\<close> and
  \<^verbatim>\<open>stateApproximation\<close> that the sources call and do not contain. The spec gives a
  resource "an optional (attribute, value) pair used for reference matching" beside its id
  and an identity "derived deterministically from {kind, id/name, mode}"; a reference a
  target attribute and a match policy, "exact / default" being one policy; and the State
  Approximation as an "append-only index of already-known resource instances, queryable by
  (kind, attribute, value)", with the resources of one kind for the linear scan. The
  theorems below hold for every \<open>externs\<close>; this one gives them concrete instances.
\<close>

definition specMatchPair :: "resource \<Rightarrow> string \<times> string" where
  "specMatchPair r =
     (if Attribute r = [] then ''id'' else Attribute r, if Value r = [] then ID r else Value r)"

definition specGet ::
    "resourceApproximation list \<Rightarrow> string \<Rightarrow> string \<Rightarrow> string \<Rightarrow> resourceApproximation option" where
  "specGet st kind attr v =
     find (\<lambda>sr. sr_Type sr = kind \<and> list_ex (\<lambda>i. Attributes i attr = Some v) (Instances sr)) st"

definition specExterns :: "(resourceApproximation list) externs" where
  "specExterns =
     \<lparr>MatchPair = specMatchPair,
      String = (\<lambda>r. Mode r @ ''.'' @ Resource r @ ''.'' @ (if Name r = [] then ID r else Name r)),
      MatchAttribute = Match,
      MatchTypeValue =
        (\<lambda>ref. if ref_MatchType ref = MatchDefault then MatchExact else ref_MatchType ref),
      stHas = (\<lambda>st r. case specMatchPair r of (k, v) \<Rightarrow> specGet st (Resource r) k v \<noteq> None),
      stGet = specGet,
      stResources = (\<lambda>st kind. filter (\<lambda>sr. sr_Type sr = kind) st),
      stAppend = (\<lambda>st sr. st @ [sr])\<rparr>"

definition emptyContext :: "(resourceApproximation list) importContext" where
  "emptyContext =
     \<lparr>ic_Module = [], Importables = Map.empty, Resources = {}, Directory = [], ic_nameFixes = [],
      variables = Map.empty, channels = Map.empty, defaultChannel = [], State = [], Scope = [],
      incremental = False, noFormat = False, services = {}, listing = [],
      generateDeclaration = False, meAdmin = False, prefix = [], accountLevel = False,
      shImports = {}, notebooksFormat = ''SOURCE'', updatedSinceStr = [], updatedSinceMs = 0,
      waitGroup = 0, testEmits = None, importing = Map.empty\<rparr>"

text \<open>A context that exports clusters, and one cluster whose data handle has no state.\<close>

definition clusterContext :: "(resourceApproximation list) importContext" where
  "clusterContext =
     emptyContext\<lparr>Importables :=
         [''databricks_cluster'' \<mapsto>
            \<lparr>Service = ''compute'', ir_Name = None, AccountLevel = False, WorkspaceLevel = True,
             Depends = []\<rparr>],
       Resources := {''databricks_cluster''},
       services := {''compute''}\<rparr>"

definition exampleCluster :: resource where
  "exampleCluster =
     \<lparr>Resource = ''databricks_cluster'', ID = ''c1'', Name = [], Mode = [], Attribute = [],
      Value = [], Data = \<lparr>dState = None\<rparr>\<rparr>"

text \<open>Two directories in the State Approximation, and a reference with the prefix policy.\<close>

definition fooDirectory :: resourceApproximation where
  "fooDirectory =
     \<lparr>sr_Mode = ''managed'', sr_Module = [], sr_Type = ''databricks_directory'', sr_Name = ''foo'',
      Instances = [\<lparr>Attributes = [''id'' \<mapsto> ''1'', ''path'' \<mapsto> ''foo'']\<rparr>]\<rparr>"

definition foDirectory :: resourceApproximation where
  "foDirectory =
     \<lparr>sr_Mode = ''managed'', sr_Module = [], sr_Type = ''databricks_directory'', sr_Name = ''fo'',
      Instances = [\<lparr>Attributes = [''id'' \<mapsto> ''2'', ''path'' \<mapsto> ''fo'']\<rparr>]\<rparr>"

definition prefixReference :: reference where
  "prefixReference =
     \<lparr>Path = ''path'', ref_Resource = ''databricks_directory'', Match = ''path'',
      ref_MatchType = MatchPrefix, File = False, Variable = False, Regexp = None\<rparr>"

text \<open>
  References with the regexp policy. The first pattern stands for \<^verbatim>\<open>^/dirs/(\w+)/x$\<close> on
  the one text the examples use; the second has two capture groups
  (\<^verbatim>\<open>^/dirs/(\w+)/(x)$\<close>); the third is \<^verbatim>\<open>^"(\w+)"$\<close>, a capture between double quotes.
\<close>

definition oneGroupReference :: reference where
  "oneGroupReference =
     \<lparr>Path = ''path'', ref_Resource = ''databricks_directory'', Match = ''path'',
      ref_MatchType = MatchRegexp, File = False, Variable = False,
      Regexp = Some (\<lambda>s. if s = ''/dirs/foo/x'' then [0, 11, 6, 9] else [])\<rparr>"

definition twoGroupReference :: reference where
  "twoGroupReference =
     \<lparr>Path = ''path'', ref_Resource = ''databricks_directory'', Match = ''path'',
      ref_MatchType = MatchRegexp, File = False, Variable = False,
      Regexp = Some (\<lambda>s. if s = ''/dirs/foo/x'' then [0, 11, 6, 9, 10, 11] else [])\<rparr>"

definition quotedReference :: reference where
  "quotedReference =
     \<lparr>Path = ''path'', ref_Resource = ''databricks_directory'', Match = ''path'',
      ref_MatchType = MatchRegexp, File = False, Variable = False,
      Regexp = Some (\<lambda>s. if s = [CHR 0x22] @ ''foo'' @ [CHR 0x22] then [0, 5, 1, 4] else [])\<rparr>"

text \<open>A kind with a file-backed field and a field that becomes an external variable.\<close>

definition notebookKind :: importable where
  "notebookKind =
     \<lparr>Service = ''notebooks'', ir_Name = None, AccountLevel = False, WorkspaceLevel = True,
      Depends =
        [\<lparr>Path = ''source'', ref_Resource = [], Match = [], ref_MatchType = MatchDefault,
          File = True, Variable = False, Regexp = None\<rparr>,
         \<lparr>Path = ''token.secret'', ref_Resource = [], Match = [], ref_MatchType = MatchDefault,
          File = False, Variable = True, Regexp = None\<rparr>]\<rparr>"

subsection \<open>Resource names\<close>

text \<open>
  \<^verbatim>\<open>md5.Sum\<close> of Go's \<^verbatim>\<open>crypto/md5\<close> (RFC 1321) on 32-bit words. Each row of the
  table is one of the 64 steps: the round (0 to 3, which selects the mixing function), the
  additive constant, the left rotation and the index of the message word.
\<close>

definition rotl32 :: "32 word \<Rightarrow> nat \<Rightarrow> 32 word" where
  "rotl32 x s = push_bit s x OR drop_bit (32 - s) x"

definition md5Table :: "(nat \<times> 32 word \<times> nat \<times> nat) list" where
  "md5Table =
     [
      (0, 0xd76aa478, 7, 0), (0, 0xe8c7b756, 12, 1), (0, 0x242070db, 17, 2), (0, 0xc1bdceee, 22, 3),
      (0, 0xf57c0faf, 7, 4), (0, 0x4787c62a, 12, 5), (0, 0xa8304613, 17, 6), (0, 0xfd469501, 22, 7),
      (0, 0x698098d8, 7, 8), (0, 0x8b44f7af, 12, 9), (0, 0xffff5bb1, 17, 10), (0, 0x895cd7be, 22, 11),
      (0, 0x6b901122, 7, 12), (0, 0xfd987193, 12, 13), (0, 0xa679438e, 17, 14), (0, 0x49b40821, 22, 15),
      (1, 0xf61e2562, 5, 1), (1, 0xc040b340, 9, 6), (1, 0x265e5a51, 14, 11), (1, 0xe9b6c7aa, 20, 0),
      (1, 0xd62f105d, 5, 5), (1, 0x02441453, 9, 10), (1, 0xd8a1e681, 14, 15), (1, 0xe7d3fbc8, 20, 4),
      (1, 0x21e1cde6, 5, 9), (1, 0xc33707d6, 9, 14), (1, 0xf4d50d87, 14, 3), (1, 0x455a14ed, 20, 8),
      (1, 0xa9e3e905, 5, 13), (1, 0xfcefa3f8, 9, 2), (1, 0x676f02d9, 14, 7), (1, 0x8d2a4c8a, 20, 12),
      (2, 0xfffa3942, 4, 5), (2, 0x8771f681, 11, 8), (2, 0x6d9d6122, 16, 11), (2, 0xfde5380c, 23, 14),
      (2, 0xa4beea44, 4, 1), (2, 0x4bdecfa9, 11, 4), (2, 0xf6bb4b60, 16, 7), (2, 0xbebfbc70, 23, 10),
      (2, 0x289b7ec6, 4, 13), (2, 0xeaa127fa, 11, 0), (2, 0xd4ef3085, 16, 3), (2, 0x04881d05, 23, 6),
      (2, 0xd9d4d039, 4, 9), (2, 0xe6db99e5, 11, 12), (2, 0x1fa27cf8, 16, 15), (2, 0xc4ac5665, 23, 2),
      (3, 0xf4292244, 6, 0), (3, 0x432aff97, 10, 7), (3, 0xab9423a7, 15, 14), (3, 0xfc93a039, 21, 5),
      (3, 0x655b59c3, 6, 12), (3, 0x8f0ccc92, 10, 3), (3, 0xffeff47d, 15, 10), (3, 0x85845dd1, 21, 1),
      (3, 0x6fa87e4f, 6, 8), (3, 0xfe2ce6e0, 10, 15), (3, 0xa3014314, 15, 6), (3, 0x4e0811a1, 21, 13),
      (3, 0xf7537e82, 6, 4), (3, 0xbd3af235, 10, 11), (3, 0x2ad7d2bb, 15, 2), (3, 0xeb86d391, 21, 9)]"

definition md5F :: "nat \<Rightarrow> 32 word \<Rightarrow> 32 word \<Rightarrow> 32 word \<Rightarrow> 32 word" where
  "md5F f b c d =
     (if f = 0 then (b AND c) OR (NOT b AND d)
      else if f = 1 then (d AND b) OR (NOT d AND c)
      else if f = 2 then b XOR c XOR d
      else c XOR (b OR NOT d))"

type_synonym md5State = "32 word \<times> 32 word \<times> 32 word \<times> 32 word"

fun md5Step :: "32 word list \<Rightarrow> md5State \<Rightarrow> nat \<times> 32 word \<times> nat \<times> nat \<Rightarrow> md5State" where
  "md5Step m (a, b, c, d) (f, k, s, g) =
     (d, b + rotl32 (md5F f b c d + a + k + m ! g) s, b, c)"

fun leWords :: "string \<Rightarrow> 32 word list" where
  "leWords (b0 # b1 # b2 # b3 # bs) =
     (of_char b0 + push_bit 8 (of_char b1) + push_bit 16 (of_char b2) + push_bit 24 (of_char b3))
       # leWords bs"
| "leWords bs = []"

definition md5Block :: "md5State \<Rightarrow> string \<Rightarrow> md5State" where
  "md5Block st blk =
     (case st of (a0, b0, c0, d0) \<Rightarrow>
        (case foldl (md5Step (leWords blk)) st md5Table of
           (a, b, c, d) \<Rightarrow> (a0 + a, b0 + b, c0 + c, d0 + d)))"

text \<open>The blocks of 64 bytes are consumed from the left; fewer than 64 bytes are left alone.\<close>

function md5Blocks :: "md5State \<Rightarrow> string \<Rightarrow> md5State" where
  "md5Blocks st [] = st"
| "md5Blocks st (c # cs) =
     (if length cs < 63 then st else md5Blocks (md5Block st (c # take 63 cs)) (drop 63 cs))"
  by pat_completeness auto
termination
  by (relation "measure (\<lambda>(st, s). length s)") auto

fun leBytes :: "nat \<Rightarrow> nat \<Rightarrow> string" where
  "leBytes 0 x = []"
| "leBytes (Suc n) x = char_of x # leBytes n (x div 256)"

definition md5Pad :: "string \<Rightarrow> string" where
  "md5Pad s =
     s @ [CHR 0x80] @ replicate ((119 - length s mod 64) mod 64) (CHR 0x00)
       @ leBytes 8 (8 * length s)"

definition byteOf :: "32 word \<Rightarrow> char" where
  "byteOf w =
     Char (bit w 0) (bit w 1) (bit w 2) (bit w 3) (bit w 4) (bit w 5) (bit w 6) (bit w 7)"

definition leBytes32 :: "32 word \<Rightarrow> string" where
  "leBytes32 w = map (\<lambda>i. byteOf (drop_bit i w)) [0, 8, 16, 24]"

definition md5Sum :: "string \<Rightarrow> string" where
  "md5Sum s =
     (case md5Blocks (0x67452301, 0xefcdab89, 0x98badcfe, 0x10325476) (md5Pad s) of
        (a, b, c, d) \<Rightarrow> concat (map leBytes32 [a, b, c, d]))"

text \<open>The verb \<^verbatim>\<open>%x\<close> on a byte array: two lower-case hexadecimal digits a byte.\<close>

definition hexDigit :: "nat \<Rightarrow> char" where
  "hexDigit n = (if n < 10 then char_of (48 + n) else char_of (87 + n))"

definition hexString :: "string \<Rightarrow> string" where
  "hexString bs = concat (map (\<lambda>b. [hexDigit (of_char b div 16), hexDigit (of_char b mod 16)]) bs)"

text \<open>
  The four patterns of \<^verbatim>\<open>nameFixes\<close>, each as its \<^verbatim>\<open>ReplaceAllString\<close>: the text is
  read from the left, every match is replaced and reading goes on after it. Every pattern
  matches ASCII bytes or whole runs of bytes outside the word characters, so reading bytes
  and reading UTF-8 runes find the same matches.

  The first pattern,
  \<^verbatim>\<open>[0-9a-f]{8}[_-][0-9a-f]{4}[_-][0-9a-f]{4}[_-][0-9a-f]{4}[_-][0-9a-f]{12}[_-]\<close>,
  matches 37 bytes: a lower-case UUID whose groups are joined by \<open>_\<close> or \<open>-\<close>, and one
  more \<open>_\<close> or \<open>-\<close>.
\<close>

definition isLowerHex :: "char \<Rightarrow> bool" where
  "isLowerHex c = (isDigit c \<or> (CHR ''a'' \<le> c \<and> c \<le> CHR ''f''))"

definition isUuidSep :: "char \<Rightarrow> bool" where
  "isUuidSep c = (c = CHR ''_'' \<or> c = CHR ''-'')"

definition uuidAt :: "string \<Rightarrow> bool" where
  "uuidAt s =
     (37 \<le> length s
      \<and> list_all isLowerHex (take 8 s) \<and> isUuidSep (s ! 8)
      \<and> list_all isLowerHex (take 4 (drop 9 s)) \<and> isUuidSep (s ! 13)
      \<and> list_all isLowerHex (take 4 (drop 14 s)) \<and> isUuidSep (s ! 18)
      \<and> list_all isLowerHex (take 4 (drop 19 s)) \<and> isUuidSep (s ! 23)
      \<and> list_all isLowerHex (take 12 (drop 24 s)) \<and> isUuidSep (s ! 36))"

function uuidReplaceAll :: "string \<Rightarrow> string \<Rightarrow> string" where
  "uuidReplaceAll [] repl = []"
| "uuidReplaceAll (c # cs) repl =
     (if uuidAt (c # cs) then repl @ uuidReplaceAll (drop 36 cs) repl
      else c # uuidReplaceAll cs repl)"
  by pat_completeness auto
termination
  by (relation "measure (\<lambda>(s, r). length s)") auto

text \<open>
  The second pattern, \<^verbatim>\<open>[-\s\.\|]\<close>, matches one byte: a hyphen, a dot, a bar, or white
  space (\<^verbatim>\<open>\s\<close> is tab, line feed, form feed, carriage return and space).
\<close>

definition isSeparator :: "char \<Rightarrow> bool" where
  "isSeparator c =
     (c = CHR ''-'' \<or> c = CHR ''.'' \<or> c = CHR ''|'' \<or> c = CHR 0x09 \<or> c = CHR 0x0A
      \<or> c = CHR 0x0C \<or> c = CHR 0x0D \<or> c = CHR '' '')"

definition separatorReplaceAll :: "string \<Rightarrow> string \<Rightarrow> string" where
  "separatorReplaceAll s repl = concat (map (\<lambda>c. if isSeparator c then repl else [c]) s)"

text \<open>
  The third pattern, \<^verbatim>\<open>\W+\<close>, matches a longest run of bytes that are no word
  characters (letters, digits, underscore); the fourth, \<^verbatim>\<open>[_]{2,}\<close>, a longest run of
  two or more underscores.
\<close>

definition isWord :: "char \<Rightarrow> bool" where
  "isWord c =
     (isDigit c \<or> (CHR ''a'' \<le> c \<and> c \<le> CHR ''z'') \<or> (CHR ''A'' \<le> c \<and> c \<le> CHR ''Z'')
      \<or> c = CHR ''_'')"

function nonWordReplaceAll :: "string \<Rightarrow> string \<Rightarrow> string" where
  "nonWordReplaceAll [] repl = []"
| "nonWordReplaceAll (c # cs) repl =
     (if \<not> isWord c then repl @ nonWordReplaceAll (dropWhile (\<lambda>x. \<not> isWord x) cs) repl
      else c # nonWordReplaceAll cs repl)"
  by pat_completeness auto
termination
  by (relation "measure (\<lambda>(s, r). length s)")
     (auto simp add: length_dropWhile_le less_Suc_eq_le)

function underscoresReplaceAll :: "string \<Rightarrow> string \<Rightarrow> string" where
  "underscoresReplaceAll [] repl = []"
| "underscoresReplaceAll (c # cs) repl =
     (if c = CHR ''_'' \<and> cs \<noteq> [] \<and> hd cs = CHR ''_''
      then repl @ underscoresReplaceAll (dropWhile (\<lambda>x. x = CHR ''_'') cs) repl
      else c # underscoresReplaceAll cs repl)"
  by pat_completeness auto
termination
  by (relation "measure (\<lambda>(s, r). length s)")
     (auto simp add: length_dropWhile_le less_Suc_eq_le)

definition nameFixes :: "regexFix list" where
  "nameFixes =
     [\<lparr>ReplaceAllString = uuidReplaceAll, Replacement = []\<rparr>,
      \<lparr>ReplaceAllString = separatorReplaceAll, Replacement = ''_''\<rparr>,
      \<lparr>ReplaceAllString = nonWordReplaceAll, Replacement = ''_''\<rparr>,
      \<lparr>ReplaceAllString = underscoresReplaceAll, Replacement = ''_''\<rparr>]"

definition regexFix :: "string \<Rightarrow> regexFix list \<Rightarrow> string" where
  "regexFix s fixes = foldl (\<lambda>s x. ReplaceAllString x s (Replacement x)) s fixes"

text \<open>
  \<^verbatim>\<open>ResourceName\<close>. \<open>normalizedName\<close> is the name after the prefix, the lower-casing
  and the fixes, and \<open>origCaseName\<close> the prefixed name before them; the pattern
  \<^verbatim>\<open>^\d\<close> tests the first byte for a decimal digit. A kind that is not among the
  importables has no name policy.
\<close>

definition rawName :: "'st importContext \<Rightarrow> resource \<Rightarrow> string" where
  "rawName ic r =
     (let name = Name r;
          name = (if name = [] then
                    (case Importables ic (Resource r) of
                       None \<Rightarrow> name
                     | Some ir \<Rightarrow> (case ir_Name ir of None \<Rightarrow> name | Some f \<Rightarrow> f (Data r)))
                  else name)
      in if name = [] then ID r else name)"

definition origCaseName :: "'st importContext \<Rightarrow> resource \<Rightarrow> string" where
  "origCaseName ic r = prefix ic @ rawName ic r"

definition normalizedName :: "'st importContext \<Rightarrow> resource \<Rightarrow> string" where
  "normalizedName ic r = regexFix (ToLower (origCaseName ic r)) (ic_nameFixes ic)"

definition startsWithDigit :: "string \<Rightarrow> bool" where
  "startsWithDigit s = (case s of [] \<Rightarrow> False | c # cs \<Rightarrow> isDigit c)"

definition ResourceName :: "'st importContext \<Rightarrow> resource \<Rightarrow> string" where
  "ResourceName ic r =
     (let name = normalizedName ic r in
      if startsWithDigit name \<or> name = [] then
        take 12 (''r'' @ hexString (md5Sum (if name = [] then ID r else origCaseName ic r)))
      else name)"

text \<open>The context of \<^verbatim>\<open>newImportContext\<close> as far as names go, and a resource by its name.\<close>

definition namingContext :: "(resourceApproximation list) importContext" where
  "namingContext = emptyContext\<lparr>ic_nameFixes := nameFixes\<rparr>"

definition named :: "string \<Rightarrow> resource" where
  "named n =
     \<lparr>Resource = [], ID = [], Name = n, Mode = [], Attribute = [], Value = [],
      Data = \<lparr>dState = None\<rparr>\<rparr>"

subsection \<open>The writer of one output file\<close>

text \<open>
  A block of a parsed file (\<^verbatim>\<open>*hclwrite.Block\<close>): its type, its labels and the bytes of
  its tokens, which \<^verbatim>\<open>hclwrite\<close> keeps as they were read and writes back unchanged when
  the block is appended to another file.
\<close>

record hclBlock =
  blockType :: string
  blockLabels :: "string list"
  blockBytes :: string

definition generateBlockFullName :: "hclBlock \<Rightarrow> string" where
  "generateBlockFullName block = blockType block @ ''_'' @ Join (blockLabels block) ''_''"

record resourceWriteData =
  BlockName :: string
  ResourceBody :: string
  ImportCommand :: string

text \<open>
  What the operating system and the parser answer to \<^verbatim>\<open>handleResourceWrite\<close>:
  \<^verbatim>\<open>os.ReadFile\<close> followed by \<^verbatim>\<open>hclwrite.ParseConfig\<close> (the file it returns, nil or
  with its blocks; its diagnostics are only logged), \<^verbatim>\<open>os.Create\<close>, and
  \<^verbatim>\<open>WriteString\<close>, which maps the content so far and a text to the content after the
  call and whether the call succeeded.
\<close>

datatype readOutcome = ErrNotExist | ReadFailed | ReadOk "hclBlock list option"

record fileEnv =
  readFile :: readOutcome
  createOk :: bool
  WriteString :: "string \<Rightarrow> string \<Rightarrow> string \<times> bool"

datatype fileState = Absent | Present string

text \<open>
  The loop over the writer's queue. Its state is the content of the file, the names in
  \<^verbatim>\<open>newResources\<close> (a Go set, kept as a list without repetition), the import commands
  sent to the aggregator, and the outstanding-work counter, which \<^verbatim>\<open>Done\<close> must not
  take below zero. A nil entry of the queue is only counted.
\<close>

type_synonym writerState = "string \<times> string list \<times> string list \<times> nat"

fun writeLoop :: "(string \<Rightarrow> string \<Rightarrow> string \<times> bool) \<Rightarrow> resourceWriteData option list
    \<Rightarrow> writerState \<Rightarrow> panic + writerState" where
  "writeLoop w [] st = Inr st"
| "writeLoop w (f # fs) (tf, newResources, sent, wg) =
     (let (tf1, newResources1, sent1, wg1) =
            (case f of
               None \<Rightarrow> (tf, newResources, sent, wg)
             | Some d \<Rightarrow>
                 (case w tf (ResourceBody d) of
                    (tf', ok) \<Rightarrow>
                      if ok then
                        (tf', List.insert (BlockName d) newResources,
                         if ImportCommand d \<noteq> [] then sent @ [ImportCommand d] else sent,
                         if ImportCommand d \<noteq> [] then wg + 1 else wg)
                      else (tf', newResources, sent, wg)))
      in if wg1 = 0 then Inl NegativeWaitGroupCounter
         else writeLoop w fs (tf1, newResources1, sent1, wg1 - 1))"

definition fileBytes :: "hclBlock list \<Rightarrow> string" where
  "fileBytes blocks = concat (map blockBytes blocks)"

text \<open>
  \<^verbatim>\<open>handleResourceWrite\<close> for one generated file, given its state before the call and
  the entries of its queue in arrival order. The result is the context (its counter),
  the state of the file and the import commands sent.
\<close>

definition handleResourceWrite :: "fileEnv \<Rightarrow> 'st importContext \<Rightarrow> fileState
    \<Rightarrow> resourceWriteData option list \<Rightarrow> panic + 'st importContext \<times> fileState \<times> string list" where
  "handleResourceWrite env ic before ch =
     (let existingFile =
            (if incremental ic then
               (case readFile env of
                  ErrNotExist \<Rightarrow> None
                | ReadFailed \<Rightarrow> None
                | ReadOk parsed \<Rightarrow> parsed)
             else None);
          existingBlocks = (case existingFile of None \<Rightarrow> [] | Some blocks \<Rightarrow> blocks)
      in if \<not> createOk env then Inr (ic, before, [])
         else
           (case writeLoop (WriteString env) ch ([], [], [], waitGroup ic) of
              Inl p \<Rightarrow> Inl p
            | Inr (tf, newResources, sent, wg) \<Rightarrow>
                let kept = filter (\<lambda>block. generateBlockFullName block \<notin> set newResources)
                             existingBlocks;
                    numResources =
                      (if incremental ic then length newResources + length kept
                       else length newResources);
                    tf = (if incremental ic then fst (WriteString env tf (fileBytes kept))
                          else tf)
                in Inr (ic\<lparr>waitGroup := wg\<rparr>,
                        if numResources = 0 then Absent else Present tf, sent)))"

text \<open>A file system on which every write succeeds and appends the text.\<close>

definition appendingEnv :: "readOutcome \<Rightarrow> fileEnv" where
  "appendingEnv prior =
     \<lparr>readFile = prior, createOk = True, WriteString = (\<lambda>content text. (content @ text, True))\<rparr>"

text \<open>The entries of a queue that are not nil.\<close>

definition entries :: "resourceWriteData option list \<Rightarrow> resourceWriteData list" where
  "entries ch = concat (map (\<lambda>f. case f of None \<Rightarrow> [] | Some d \<Rightarrow> [d]) ch)"

text \<open>
  Example blocks: a prior file with the blocks A and B, and a run that generates B and C.
\<close>

definition blockA :: hclBlock where
  "blockA = \<lparr>blockType = ''resource'', blockLabels = [''databricks_job'', ''a''],
             blockBytes = ''resource databricks_job a { old };''\<rparr>"

definition blockB :: hclBlock where
  "blockB = \<lparr>blockType = ''resource'', blockLabels = [''databricks_job'', ''b''],
             blockBytes = ''resource databricks_job b { old };''\<rparr>"

definition newB :: resourceWriteData where
  "newB = \<lparr>BlockName = ''resource_databricks_job_b'',
           ResourceBody = ''resource databricks_job b { new };'',
           ImportCommand = ''terraform import databricks_job.b 2''\<rparr>"

definition newC :: resourceWriteData where
  "newC = \<lparr>BlockName = ''resource_databricks_job_c'',
           ResourceBody = ''resource databricks_job c { new };'',
           ImportCommand = []\<rparr>"

subsection \<open>The orchestrator\<close>

text \<open>
  \<^verbatim>\<open>Run\<close> talks to the operating system, to the platform client and to the concurrent
  stages of the pipeline. The model records what \<^verbatim>\<open>Run\<close> itself does to the file
  system as a list of events, and takes the answers of the outside world from a record:
  the start time of the last run read from the statistics file, the parse of a time stamp
  (its normal form in UTC and its milliseconds, or a failure), the table of notebook
  formats, \<^verbatim>\<open>os.Stat\<close> of the output directory, the errors of creating a directory or a
  file and of the client calls, the groups of the current user, and the error of the
  formatter. Two stages are functions of the context: \<open>runListing\<close> is everything between
  the start of the import channels and their closing (the listing collaborators, their
  calls of \<^verbatim>\<open>Emit\<close> and the handlers, up to the first barrier), and
  \<open>runGeneration\<close> is \<^verbatim>\<open>generateAndWriteResources\<close> with the events of its writers.
\<close>

datatype fsEvent = MkdirAll string | Create string | Remove string | Exec string

datatype statOutcome = StatNotExist | StatIsDir | StatNotDir | StatFailed

record 'st runEnv =
  lastRunString :: string
  parseTime :: "string \<Rightarrow> (string \<times> int) option"
  supportedFormat :: "string \<Rightarrow> bool"
  statDirectory :: statOutcome
  mkdirOk :: bool
  isAccountClient :: bool
  clientErr :: "string option"
  meErr :: "string option"
  meGroups :: "string list"
  runListing :: "'st importContext \<Rightarrow> 'st importContext"
  shLines :: "string list option"
  createErr :: "string \<Rightarrow> string option"
  runGeneration :: "'st importContext \<Rightarrow> 'st importContext \<times> fsEvent list"
  statsWriteErr :: "string option"
  fmtErr :: "string option"

text \<open>
  \<^verbatim>\<open>strings.ToUpper\<close>, on ASCII text as \<^verbatim>\<open>ToLower\<close> above: the letters a to z are
  raised, every other byte is copied.
\<close>

definition toUpperByte :: "char \<Rightarrow> char" where
  "toUpperByte c =
     (if CHR ''a'' \<le> c \<and> c \<le> CHR ''z'' then char_of (of_char c - (32::nat)) else c)"

definition ToUpper :: "string \<Rightarrow> string" where
  "ToUpper s = map toUpperByte s"

definition TrimRightNewlines :: "string \<Rightarrow> string" where
  "TrimRightNewlines s = rev (dropWhile (\<lambda>c. c = CHR 0x0A) (rev s))"

text \<open>
  The part of \<^verbatim>\<open>Run\<close> before the concurrent part: an error message, a panic
  (\<^verbatim>\<open>info.IsDir()\<close> on the nil that \<^verbatim>\<open>os.Stat\<close> returns with an error other than
  "not exist"), or the context and the events so far.
\<close>

datatype 'a outcome = Failed string | Panicked panic | Ok 'a

definition runIncremental :: "'st runEnv \<Rightarrow> 'st importContext \<Rightarrow> 'st importContext outcome" where
  "runIncremental env ic =
     (if incremental ic then
        (let ic = (if updatedSinceStr ic = [] then ic\<lparr>updatedSinceStr := lastRunString env\<rparr>
                   else ic)
         in if updatedSinceStr ic = [] then
              Failed (''-updated-since is required with -interactive parameter if ''
                      @ Directory ic @ ''/exporter-run-stats.json'' @ '' file doesn'' @ [CHR 0x27] @ ''t exist'')
            else
              (case parseTime env (updatedSinceStr ic) of
                 None \<Rightarrow>
                   Failed (''can'' @ [CHR 0x27] @ ''t parse value '' @ [CHR 0x27] @ updatedSinceStr ic
                      @ [CHR 0x27]
                      @ '' please specify it in ISO8601 format, i.e. 2023-07-01T00:00:00Z'')
               | Some (utc, ms) \<Rightarrow> Ok (ic\<lparr>updatedSinceStr := utc, updatedSinceMs := ms\<rparr>)))
      else Ok ic)"

definition runDirectory :: "'st runEnv \<Rightarrow> 'st importContext \<Rightarrow> fsEvent list outcome" where
  "runDirectory env ic =
     (case statDirectory env of
        StatNotExist \<Rightarrow>
          if mkdirOk env then Ok [MkdirAll (Directory ic)]
          else Failed (''can'' @ [CHR 0x27] @ ''t create directory '' @ Directory ic)
      | StatIsDir \<Rightarrow> Ok []
      | StatNotDir \<Rightarrow> Failed (''the path '' @ Directory ic @ '' is not a directory'')
      | StatFailed \<Rightarrow> Panicked NilDereference)"

definition runClients :: "'st runEnv \<Rightarrow> 'st importContext \<Rightarrow> 'st importContext outcome" where
  "runClients env ic =
     (let ic = ic\<lparr>accountLevel := isAccountClient env\<rparr> in
      if accountLevel ic then
        (case clientErr env of
           Some err \<Rightarrow> Failed err
         | None \<Rightarrow> Ok (ic\<lparr>meAdmin := True\<rparr>))
      else
        (case clientErr env of
           Some err \<Rightarrow> Failed err
         | None \<Rightarrow>
             (case meErr env of
                Some err \<Rightarrow> Failed err
              | None \<Rightarrow> Ok (if ''admins'' \<in> set (meGroups env) then ic\<lparr>meAdmin := True\<rparr> else ic))))"

definition runSetup :: "'st runEnv \<Rightarrow> 'st importContext
    \<Rightarrow> ('st importContext \<times> fsEvent list) outcome" where
  "runSetup env ic =
     (if services ic = {} then Failed ''no services to import''
      else
        (case runIncremental env ic of
           Failed err \<Rightarrow> Failed err
         | Panicked p \<Rightarrow> Panicked p
         | Ok ic \<Rightarrow>
             let ic = ic\<lparr>notebooksFormat := ToUpper (notebooksFormat ic)\<rparr> in
             if \<not> supportedFormat env (notebooksFormat ic) \<and> notebooksFormat ic \<noteq> ''SOURCE''
             then Failed (''unsupported notebook format: '' @ [CHR 0x27] @ notebooksFormat ic @ [CHR 0x27])
             else
               (case runDirectory env ic of
                  Failed err \<Rightarrow> Failed err
                | Panicked p \<Rightarrow> Panicked p
                | Ok events \<Rightarrow>
                    (case runClients env ic of
                       Failed err \<Rightarrow> Failed err
                     | Panicked p \<Rightarrow> Panicked p
                     | Ok ic \<Rightarrow> Ok (ic, events)))))"

text \<open>
  \<^verbatim>\<open>generateVariables\<close>, as far as files go: nothing without variables, else the
  variables file is created.
\<close>

definition generateVariables :: "'st runEnv \<Rightarrow> 'st importContext \<Rightarrow> string option \<times> fsEvent list" where
  "generateVariables env ic =
     (if variables ic = Map.empty then (None, [])
      else
        (case createErr env (Directory ic @ ''/vars.tf'') of
           Some err \<Rightarrow> (Some err, [])
         | None \<Rightarrow> (None, [Create (Directory ic @ ''/vars.tf'')])))"

text \<open>
  The part of \<^verbatim>\<open>Run\<close> after the test of the Scope: the import script, the provider
  declaration, the generated files, the variables file, the statistics, the list of
  ignored resources and the formatter. The result is the error \<^verbatim>\<open>Run\<close> returns (or
  none), the context and the events.
\<close>

definition runOutput :: "'st runEnv \<Rightarrow> 'st importContext \<Rightarrow> fsEvent list
    \<Rightarrow> string option \<times> 'st importContext \<times> fsEvent list" where
  "runOutput env ic events =
     (let shFileName = Directory ic @ ''/import.sh'';
          ic = (if incremental ic then
                  (case shLines env of
                     None \<Rightarrow> ic
                   | Some ls \<Rightarrow>
                       ic\<lparr>shImports := shImports ic
                            \<union> set (map TrimRightNewlines
                                     (filter (\<lambda>l. HasPrefix l ''terraform import '') ls))\<rparr>)
                else ic)
      in case createErr env shFileName of
        Some err \<Rightarrow> (Some err, ic, events)
      | None \<Rightarrow>
          let events = events @ [Create shFileName];
              declaration =
                (if generateDeclaration ic then
                   (case createErr env (Directory ic @ ''/databricks.tf'') of
                      Some err \<Rightarrow> Inl err
                    | None \<Rightarrow> Inr [Create (Directory ic @ ''/databricks.tf'')])
                 else Inr [])
          in case declaration of
            Inl err \<Rightarrow> (Some err, ic, events)
          | Inr created \<Rightarrow>
              let events = events @ created;
                  (ic, written) = runGeneration env ic;
                  events = events @ written;
                  (err, created) = generateVariables env ic;
                  events = events @ created
              in case err of
                Some err \<Rightarrow> (Some err, ic, events)
              | None \<Rightarrow>
                  let stats = createErr env (Directory ic @ ''/exporter-run-stats.json'');
                      events = (if stats = None
                                then events @ [Create (Directory ic @ ''/exporter-run-stats.json'')]
                                else events)
                  in if stats = None \<and> statsWriteErr env \<noteq> None
                     then (statsWriteErr env, ic, events)
                     else
                       let events =
                             (if createErr env (Directory ic @ ''/ignored_resources.txt'') = None
                              then events @ [Create (Directory ic @ ''/ignored_resources.txt'')]
                              else events)
                       in if \<not> noFormat ic then
                            (case fmtErr env of
                               Some err \<Rightarrow> (Some err, ic, events @ [Exec ''terraform fmt''])
                             | None \<Rightarrow> (None, ic, events @ [Exec ''terraform fmt'']))
                          else (None, ic, events))"

definition Run :: "'st runEnv \<Rightarrow> 'st importContext
    \<Rightarrow> (string option \<times> 'st importContext \<times> fsEvent list) outcome" where
  "Run env ic =
     (case runSetup env ic of
        Failed err \<Rightarrow> Failed err
      | Panicked p \<Rightarrow> Panicked p
      | Ok (ic, events) \<Rightarrow>
          let ic = runListing env ic in
          if length (Scope ic) = 0 then Ok (Some ''no resources to import'', ic, events)
          else Ok (runOutput env ic events))"

text \<open>
  An outside world in which the output directory exists, the client answers, and every
  listing collaborator finds nothing: the listing stage leaves the context as it was.
\<close>

definition quietEnv :: "(resourceApproximation list) runEnv" where
  "quietEnv =
     \<lparr>lastRunString = [], parseTime = (\<lambda>s. None), supportedFormat = (\<lambda>f. False),
      statDirectory = StatNotExist, mkdirOk = True, isAccountClient = False, clientErr = None,
      meErr = None, meGroups = [], runListing = (\<lambda>ic. ic), shLines = None,
      createErr = (\<lambda>p. None), runGeneration = (\<lambda>ic. (ic, [])), statsWriteErr = None,
      fmtErr = None\<rparr>"

subsection \<open>Emit and Add as steps of concurrent callers\<close>

text \<open>
  The listing collaborators and the handlers call \<^verbatim>\<open>Emit\<close> and \<^verbatim>\<open>Add\<close> from many
  goroutines. Both take their locks for one map operation at a time: \<^verbatim>\<open>Emit\<close> reads
  the importing map in \<^verbatim>\<open>Has\<close> under the read lock and writes the mark later, in
  \<^verbatim>\<open>setImportingState\<close>, under the write lock; \<^verbatim>\<open>Add\<close> does the same around
  \<^verbatim>\<open>HasInState\<close>. So a call is two steps, between which other callers may run: the
  tests up to the dedup check, which read the context, and the rest, which writes it.
  \<open>EmitAdmits\<close> and \<open>AddAdmits\<close> are the tests, \<open>EmitProceed\<close> and \<open>AddProceed\<close>
  the rest; the importables are never written, so the second step looks the kind up again.
\<close>

definition EmitAdmits :: "'st externs \<Rightarrow> 'st importContext \<Rightarrow> resource \<Rightarrow> bool" where
  "EmitAdmits E ic r =
     (let (a, v) = MatchPair E r in
      if v = [] then False
      else case Importables ic (Resource r) of
        None \<Rightarrow> False
      | Some ir \<Rightarrow>
          if \<not> isServiceEnabled ic (Service ir) then False
          else if Has E ic r then False
          else True)"

definition EmitProceed :: "'st externs \<Rightarrow> 'st importContext \<Rightarrow> resource \<Rightarrow> 'st importContext" where
  "EmitProceed E ic r =
     (case Importables ic (Resource r) of
        None \<Rightarrow> ic
      | Some ir \<Rightarrow>
          (case testEmits ic of
             Some te \<Rightarrow> ic\<lparr>testEmits := Some (te(String E r \<mapsto> True))\<rparr>
           | None \<Rightarrow>
               let ic1 = setImportingState ic (String E r) False in
               if Resource r \<notin> Resources ic1 then ic1
               else if accountLevel ic1 \<and> \<not> AccountLevel ir then ic1
               else case channels ic1 (Resource r) of
                 Some ch \<Rightarrow> ic1\<lparr>waitGroup := waitGroup ic1 + 1,
                                channels := (channels ic1)(Resource r \<mapsto> ch @ [r])\<rparr>
               | None \<Rightarrow> ic1\<lparr>waitGroup := waitGroup ic1 + 1,
                             defaultChannel := defaultChannel ic1 @ [r]\<rparr>))"

definition AddAdmits :: "'st externs \<Rightarrow> 'st importContext \<Rightarrow> resource \<Rightarrow> bool" where
  "AddAdmits E ic r = (\<not> HasInState E ic r True)"

definition AddProceed :: "'st externs \<Rightarrow> 'st importContext \<Rightarrow> resource
    \<Rightarrow> 'st importContext \<times> resource" where
  "AddProceed E ic r =
     (let ic1 = setImportingState ic (String E r) True in
      case dState (Data r) of
        None \<Rightarrow> (ic1, r)
      | Some attrs \<Rightarrow>
          let r1 = (if Mode r = [] then r\<lparr>Mode := ''managed''\<rparr> else r);
              inst = \<lparr>Attributes = attrs(''id'' \<mapsto> ID r1)\<rparr>;
              ic2 = ic1\<lparr>State := stAppend E (State ic1)
                       \<lparr>sr_Mode = Mode r1, sr_Module = ic_Module ic1, sr_Type = Resource r1,
                        sr_Name = Name r1, Instances = [inst]\<rparr>\<rparr>
          in (ic2\<lparr>Scope := Scope ic2 @ [r1]\<rparr>, r1))"

text \<open>
  Callers of \<^verbatim>\<open>Emit\<close> (or of \<^verbatim>\<open>Add\<close>) for one resource. Each caller is at its test,
  at its action or done; a schedule lists which caller takes its next step. The callers
  of \<^verbatim>\<open>Add\<close> share the resource through its pointer, so the resource is part of the
  state they change.
\<close>

datatype callerPc = AtTest | AtAction | Finished

definition emitStep :: "'st externs \<Rightarrow> resource \<Rightarrow> 'st importContext \<times> callerPc list \<Rightarrow> nat
    \<Rightarrow> 'st importContext \<times> callerPc list" where
  "emitStep E r st g =
     (case st of (ic, pcs) \<Rightarrow>
        if length pcs \<le> g then (ic, pcs)
        else case pcs ! g of
          AtTest \<Rightarrow> (ic, pcs[g := (if EmitAdmits E ic r then AtAction else Finished)])
        | AtAction \<Rightarrow> (EmitProceed E ic r, pcs[g := Finished])
        | Finished \<Rightarrow> (ic, pcs))"

definition emitSchedule :: "'st externs \<Rightarrow> resource \<Rightarrow> 'st importContext \<times> callerPc list
    \<Rightarrow> nat list \<Rightarrow> 'st importContext \<times> callerPc list" where
  "emitSchedule E r st schedule = foldl (emitStep E r) st schedule"

definition addStep :: "'st externs \<Rightarrow> ('st importContext \<times> resource) \<times> callerPc list \<Rightarrow> nat
    \<Rightarrow> ('st importContext \<times> resource) \<times> callerPc list" where
  "addStep E st g =
     (case st of ((ic, r), pcs) \<Rightarrow>
        if length pcs \<le> g then ((ic, r), pcs)
        else case pcs ! g of
          AtTest \<Rightarrow> ((ic, r), pcs[g := (if AddAdmits E ic r then AtAction else Finished)])
        | AtAction \<Rightarrow> (AddProceed E ic r, pcs[g := Finished])
        | Finished \<Rightarrow> ((ic, r), pcs))"

definition addSchedule :: "'st externs \<Rightarrow> ('st importContext \<times> resource) \<times> callerPc list
    \<Rightarrow> nat list \<Rightarrow> ('st importContext \<times> resource) \<times> callerPc list" where
  "addSchedule E st schedule = foldl (addStep E) st schedule"

text \<open>A cluster whose data handle has a state.\<close>

definition statefulCluster :: resource where
  "statefulCluster =
     exampleCluster\<lparr>Data := \<lparr>dState = Some [''cluster_name'' \<mapsto> ''etl'']\<rparr>\<rparr>"

definition clusterApproximation :: resourceApproximation where
  "clusterApproximation =
     \<lparr>sr_Mode = ''managed'', sr_Module = [], sr_Type = ''databricks_cluster'', sr_Name = [],
      Instances = [\<lparr>Attributes = [''cluster_name'' \<mapsto> ''etl'', ''id'' \<mapsto> ''c1'']\<rparr>]\<rparr>"

subsection \<open>The generic projection of a resource onto a block\<close>

text \<open>
  The attribute schema of a kind (\<^verbatim>\<open>schema.Resource\<close> and \<^verbatim>\<open>schema.Schema\<close> of the
  plugin SDK) as far as \<^verbatim>\<open>dataToHcl\<close> reads it: the type of a field, whether it is
  required, its default, its cap on occurrences and its element, which is nothing, a nested
  resource or a nested schema. The fields of a resource are a Go map from names to
  schemas; the model keeps them as the list of its entries, whose names are distinct.

  A raw value is what \<^verbatim>\<open>d.GetOk\<close> returns: a value of one of the Go types the code
  tests for. A float is kept as the text of its number and the values of a map as their
  \<^verbatim>\<open>%v\<close> texts; a set is its members in the order of \<^verbatim>\<open>List()\<close>, each with its
  hash code \<^verbatim>\<open>F\<close>.
\<close>

datatype ValueType =
  TypeInvalid | TypeBool | TypeInt | TypeFloat | TypeString | TypeList | TypeMap | TypeSet

datatype raw =
  RawNil | RawString string | RawBool bool | RawInt int | RawInt32 int | RawInt64 int
  | RawFloat string | RawMap "(string \<times> string) list" | RawSet "(int \<times> raw) list"
  | RawList "raw list"

datatype schemaT =
  Schema (sType: ValueType) (sRequired: bool) (sDefault: "raw option") (sMaxItems: int)
    (sElem: elemT)
and elemT = ElemNone | ElemResource "(string \<times> schemaT) list" | ElemSchema schemaT

text \<open>
  The values handed to \<^verbatim>\<open>hclwrite\<close> (\<^verbatim>\<open>cty.Value\<close>), and a body under
  construction: its attributes and nested blocks in the order they were added.
\<close>

datatype cty =
  StringVal string | BoolVal bool | NumberIntVal int | NumberFloatVal string
  | ObjectVal "string \<rightharpoonup> string"

datatype bodyItem =
  AttributeRaw string "Token list" | AttributeValue string cty | Block string "bodyItem list"

datatype projError = UnsupportedSchemaType "string list" | UnsupportedPrimitiveList "string list"

text \<open>
  \<^verbatim>\<open>sort.Slice\<close> with a comparison function, as a sort by insertion. For the strict
  order on distinct field names every sorting procedure has the same result, which is
  proved below.
\<close>

fun insertBy :: "('a \<Rightarrow> 'a \<Rightarrow> bool) \<Rightarrow> 'a \<Rightarrow> 'a list \<Rightarrow> 'a list" where
  "insertBy lt x [] = [x]"
| "insertBy lt x (y # ys) = (if lt x y then x # y # ys else y # insertBy lt x ys)"

definition sortSlice :: "('a \<Rightarrow> 'a \<Rightarrow> bool) \<Rightarrow> 'a list \<Rightarrow> 'a list" where
  "sortSlice lt xs = foldr (insertBy lt) xs []"

text \<open>
  Go visits the entries of a map in an order it chooses anew for every loop. The order is
  a parameter of the model: a number selects one of the enumerations of the entries
  (\<open>permute\<close> reaches every enumeration, see \<open>permute_reaches_all\<close>).
\<close>

fun permute :: "nat \<Rightarrow> 'a list \<Rightarrow> 'a list" where
  "permute n [] = []"
| "permute n (x # xs) =
     (let k = n mod Suc (length xs) in
      (x # xs) ! k # permute (n div Suc (length xs)) (take k (x # xs) @ drop (Suc k) (x # xs)))"


text \<open>
  What \<^verbatim>\<open>dataToHcl\<close> takes from outside: \<^verbatim>\<open>d.GetOk\<close> of the resource data, the
  custom and the default test for omitting a field (the default one is declared in
  another file), \<^verbatim>\<open>simpleNameFixes\<close> (its pattern is declared in another file),
  \<^verbatim>\<open>hclwrite.TokensForValue\<close>, the order of each map iteration (by the path of the
  call), and the methods the Reference Resolver takes as parameters.
\<close>

record 'st projEnv =
  GetOk :: "string \<Rightarrow> raw \<times> bool"
  ShouldOmitField :: "('st importContext \<Rightarrow> string \<Rightarrow> schemaT \<Rightarrow> bool) option"
  defaultShouldOmitFieldFunc :: "'st importContext \<Rightarrow> string \<Rightarrow> schemaT \<Rightarrow> bool"
  simpleNameFixes :: "regexFix list"
  TokensForValue :: "cty \<Rightarrow> Token list"
  mapOrder :: "string list \<Rightarrow> nat"
  methods :: "'st externs"

type_synonym 'st projection = "panic + projError option \<times> bodyItem list \<times> 'st importContext"

text \<open>
  \<^verbatim>\<open>SetAttributeRaw\<close> and \<^verbatim>\<open>SetAttributeValue\<close>: an attribute of that name is
  replaced where it stands, a new one is added at the end.
\<close>

fun isAttribute :: "string \<Rightarrow> bodyItem \<Rightarrow> bool" where
  "isAttribute name (AttributeRaw n tokens) = (n = name)"
| "isAttribute name (AttributeValue n v) = (n = name)"
| "isAttribute name (Block n b) = False"

definition setAttribute :: "bodyItem list \<Rightarrow> string \<Rightarrow> bodyItem \<Rightarrow> bodyItem list" where
  "setAttribute body name item =
     (if list_ex (isAttribute name) body
      then map (\<lambda>x. if isAttribute name x then item else x) body
      else body @ [item])"

text \<open>\<^verbatim>\<open>strconv.FormatInt\<close> in base 10 and \<^verbatim>\<open>strconv.Itoa\<close>.\<close>

function natDigits :: "nat \<Rightarrow> string" where
  "natDigits n =
     (if n < 10 then [char_of (48 + n)] else natDigits (n div 10) @ [char_of (48 + n mod 10)])"
  by pat_completeness auto
termination
  by (relation "measure id") auto

definition FormatInt :: "int \<Rightarrow> string" where
  "FormatInt n = (if n < 0 then ''-'' @ natDigits (nat (- n)) else natDigits (nat n))"

definition Itoa :: "nat \<Rightarrow> string" where
  "Itoa n = FormatInt (int n)"

text \<open>
  The loop over the declared references that turns a field into an external variable: the
  raw value becomes the normalized name of the resource. \<^verbatim>\<open>i.Name\<close> is called without
  a test for nil.
\<close>

fun variableOverride :: "'st projEnv \<Rightarrow> importable \<Rightarrow> resourceData \<Rightarrow> string \<Rightarrow> reference list
    \<Rightarrow> raw \<times> bool \<Rightarrow> panic + raw \<times> bool" where
  "variableOverride env i d mpath [] rn = Inr rn"
| "variableOverride env i d mpath (r # rs) rn =
     (if Path r = mpath \<and> Variable r then
        (case ir_Name i of
           None \<Rightarrow> Inl NilDereference
         | Some name \<Rightarrow>
             variableOverride env i d mpath rs
               (RawString (regexFix (name d) (simpleNameFixes env)), True))
      else variableOverride env i d mpath rs rn)"

text \<open>
  The head of the loop body of \<^verbatim>\<open>dataToHcl\<close>: the field is passed over
  (\<^verbatim>\<open>continue\<close>) or visited with its raw value.
\<close>

datatype fieldDecision = Omit | Visit raw

definition fieldDecision :: "'st projEnv \<Rightarrow> 'st importContext \<Rightarrow> importable \<Rightarrow> resourceData
    \<Rightarrow> string \<Rightarrow> schemaT \<Rightarrow> panic + fieldDecision" where
  "fieldDecision env ic i d pathString as =
     (let omit = (case ShouldOmitField env of
                    None \<Rightarrow> defaultShouldOmitFieldFunc env ic pathString as
                  | Some f \<Rightarrow> f ic pathString as)
      in if omit then Inr Omit
         else
           (case variableOverride env i d (dependsReReplaceAll pathString []) (Depends i)
                   (GetOk env pathString) of
              Inl p \<Rightarrow> Inl p
            | Inr (raw, nonZero) \<Rightarrow>
                let shouldSkip =
                      (if sRequired as then False
                       else if sDefault as \<noteq> None \<and> Some raw \<noteq> sDefault as then False
                       else \<not> nonZero)
                in if shouldSkip then Inr Omit else Inr (Visit raw)))"

text \<open>
  The cases of the type switch that do not recurse. A type assertion on a raw value of
  another type panics.
\<close>

definition scalarField :: "'st projEnv \<Rightarrow> 'st importContext \<Rightarrow> importable \<Rightarrow> string list
    \<Rightarrow> string \<Rightarrow> schemaT \<Rightarrow> raw \<Rightarrow> bodyItem list \<Rightarrow> panic + bodyItem list \<times> 'st importContext" where
  "scalarField env ic i path a as raw body =
     (case sType as of
        TypeString \<Rightarrow>
          (case raw of
             RawString v \<Rightarrow>
               (case reference (methods env) ic i (path @ [a]) v
                       (TokensForValue env (StringVal v)) of
                  Inl p \<Rightarrow> Inl p
                | Inr (tokens, ic') \<Rightarrow> Inr (setAttribute body a (AttributeRaw a tokens), ic'))
           | _ \<Rightarrow> Inl InterfaceConversion)
      | TypeBool \<Rightarrow>
          (case raw of
             RawBool b \<Rightarrow> Inr (setAttribute body a (AttributeValue a (BoolVal b)), ic)
           | _ \<Rightarrow> Inl InterfaceConversion)
      | TypeInt \<Rightarrow>
          (let num = (case raw of RawInt n \<Rightarrow> n | RawInt32 n \<Rightarrow> n | RawInt64 n \<Rightarrow> n | _ \<Rightarrow> 0)
           in case reference (methods env) ic i (path @ [a]) (FormatInt num)
                     (TokensForValue env (NumberIntVal num)) of
                Inl p \<Rightarrow> Inl p
              | Inr (tokens, ic') \<Rightarrow> Inr (setAttribute body a (AttributeRaw a tokens), ic'))
      | TypeFloat \<Rightarrow>
          (case raw of
             RawFloat f \<Rightarrow> Inr (setAttribute body a (AttributeValue a (NumberFloatVal f)), ic)
           | _ \<Rightarrow> Inl InterfaceConversion)
      | TypeMap \<Rightarrow>
          (case raw of
             RawMap kvs \<Rightarrow> Inr (setAttribute body a (AttributeValue a (ObjectVal (map_of kvs))), ic)
           | _ \<Rightarrow> Inl InterfaceConversion)
      | _ \<Rightarrow> Inr (body, ic))"

text \<open>
  The raw list and the offset converter of a set or list field, when the raw value has
  the Go type the code asserts with \<^verbatim>\<open>ok\<close>.
\<close>

definition listOf :: "schemaT \<Rightarrow> raw \<Rightarrow> (raw list \<times> (nat \<Rightarrow> string)) option" where
  "listOf as raw =
     (case (sType as, raw) of
        (TypeSet, RawSet members) \<Rightarrow>
          Some (map snd members, \<lambda>k. FormatInt (fst (members ! k)))
      | (TypeList, RawList elems) \<Rightarrow> Some (elems, Itoa)
      | _ \<Rightarrow> None)"

text \<open>The loop of \<^verbatim>\<open>readListFromData\<close> over a list of primitive values.\<close>

fun primitiveLoop :: "'st projEnv \<Rightarrow> 'st importContext \<Rightarrow> importable \<Rightarrow> string list \<Rightarrow> raw list
    \<Rightarrow> Token list \<Rightarrow> panic + projError option \<times> Token list \<times> 'st importContext" where
  "primitiveLoop env ic i path [] toks = Inr (None, toks, ic)"
| "primitiveLoop env ic i path (raw # rest) toks =
     (let toks = (if length toks \<noteq> 1 then toks @ [\<lparr>Type = TokenComma, Bytes = '',''\<rparr>] else toks)
      in case raw of
           RawString v \<Rightarrow>
             (case reference (methods env) ic i path v (TokensForValue env (StringVal v)) of
                Inl p \<Rightarrow> Inl p
              | Inr (tokens, ic') \<Rightarrow> primitiveLoop env ic' i path rest (toks @ tokens))
         | RawInt x \<Rightarrow>
             primitiveLoop env ic i path rest (toks @ TokensForValue env (NumberIntVal x))
         | _ \<Rightarrow> Inr (Some (UnsupportedPrimitiveList path), toks, ic))"

text \<open>
  The size of a list of fields, and the facts that show that \<^verbatim>\<open>dataToHcl\<close> and
  \<^verbatim>\<open>readListFromData\<close> terminate: sorting and enumerating keep the fields, and a
  nested resource is smaller than the field it is the element of.
\<close>

definition fieldsSize :: "(string \<times> schemaT) list \<Rightarrow> nat" where
  "fieldsSize fs = size_list (size_prod (\<lambda>a. 0) size) fs"

lemma fieldsSize_elem: "sElem s = ElemResource elem \<Longrightarrow> fieldsSize elem < size s"
  by (cases s) (simp add: fieldsSize_def)

lemma size_list_insertBy:
  "size_list f (insertBy lt x xs) = Suc (f x + size_list f xs)"
  by (induction xs) simp_all

lemma size_list_sortSlice:
  "size_list f (sortSlice lt xs) = size_list f xs"
  by (induction xs) (simp_all add: sortSlice_def size_list_insertBy)

lemma size_list_remove_nth:
  "k < length xs \<Longrightarrow> Suc (f (xs ! k) + size_list f (take k xs @ drop (Suc k) xs)) = size_list f xs"
proof (induction xs arbitrary: k)
  case Nil
  then show ?case by simp
next
  case (Cons x xs)
  then show ?case by (cases k) simp_all
qed

lemma size_list_permute:
  "size_list f (permute n xs) = size_list f xs"
proof (induction n xs rule: permute.induct)
  case (1 n)
  show ?case by simp
next
  case (2 n x xs)
  let ?k = "n mod Suc (length xs)"
  have k: "?k < length (x # xs)" by simp
  have "size_list f (permute n (x # xs)) =
      Suc (f ((x # xs) ! ?k)
           + size_list f (take ?k (x # xs) @ drop (Suc ?k) (x # xs)))"
    using "2.IH"[of ?k] by (simp add: Let_def del: take_Suc_Cons drop_Suc_Cons nth_Cons_Suc)
  also have "\<dots> = size_list f (x # xs)"
    using size_list_remove_nth[OF k] .
  finally show ?case .
qed

text \<open>
  \<open>sortedFields\<close> is the slice \<^verbatim>\<open>ss\<close> after \<^verbatim>\<open>sort.Slice\<close>: the entries of the
  schema in the order of this iteration of the map, sorted with the comparison
  \<^verbatim>\<open>ss[i].Field > ss[j].Field\<close>.

  \<^verbatim>\<open>dataToHcl\<close> and \<^verbatim>\<open>readListFromData\<close> with their loops: \<open>fieldsLoop\<close> over the
  sorted fields and \<open>blocksLoop\<close> over the offsets of a list of nested blocks. The
  result is a panic, or the error (if any), the body and the context: a call of
  \<^verbatim>\<open>reference\<close> may have registered variables before an error ends the loop.
\<close>

definition sortedFields :: "'st projEnv \<Rightarrow> string list \<Rightarrow> (string \<times> schemaT) list
    \<Rightarrow> (string \<times> schemaT) list" where
  "sortedFields env path pr =
     sortSlice (\<lambda>x y. fst x > fst y) (permute (mapOrder env path) pr)"

function dataToHcl :: "'st projEnv \<Rightarrow> 'st importContext \<Rightarrow> importable \<Rightarrow> string list
      \<Rightarrow> (string \<times> schemaT) list \<Rightarrow> resourceData \<Rightarrow> bodyItem list \<Rightarrow> 'st projection"
  and fieldsLoop :: "'st projEnv \<Rightarrow> 'st importContext \<Rightarrow> importable \<Rightarrow> string list
      \<Rightarrow> (string \<times> schemaT) list \<Rightarrow> resourceData \<Rightarrow> bodyItem list \<Rightarrow> 'st projection"
  and readListFromData :: "'st projEnv \<Rightarrow> 'st importContext \<Rightarrow> importable \<Rightarrow> string list
      \<Rightarrow> resourceData \<Rightarrow> raw list \<Rightarrow> bodyItem list \<Rightarrow> schemaT \<Rightarrow> (nat \<Rightarrow> string)
      \<Rightarrow> 'st projection"
  and blocksLoop :: "'st projEnv \<Rightarrow> 'st importContext \<Rightarrow> importable \<Rightarrow> string list
      \<Rightarrow> (string \<times> schemaT) list \<Rightarrow> resourceData \<Rightarrow> nat list \<Rightarrow> string \<Rightarrow> (nat \<Rightarrow> string)
      \<Rightarrow> bodyItem list \<Rightarrow> 'st projection"
where
  "dataToHcl env ic i path pr d body =
     fieldsLoop env ic i path (sortedFields env path pr) d body"
| "fieldsLoop env ic i path [] d body = Inr (None, body, ic)"
| "fieldsLoop env ic i path ((a, as) # rest) d body =
     (case fieldDecision env ic i d (Join (path @ [a]) ''.'') as of
        Inl p \<Rightarrow> Inl p
      | Inr Omit \<Rightarrow> fieldsLoop env ic i path rest d body
      | Inr (Visit raw) \<Rightarrow>
          if sType as = TypeSet \<or> sType as = TypeList then
            (case listOf as raw of
               None \<Rightarrow> fieldsLoop env ic i path rest d body
             | Some (rawList, offsetConverter) \<Rightarrow>
                 (case readListFromData env ic i (path @ [a]) d rawList body as offsetConverter of
                    Inl p \<Rightarrow> Inl p
                  | Inr (Some err, body', ic') \<Rightarrow> Inr (Some err, body', ic')
                  | Inr (None, body', ic') \<Rightarrow> fieldsLoop env ic' i path rest d body'))
          else if sType as = TypeInvalid then Inr (Some (UnsupportedSchemaType path), body, ic)
          else
            (case scalarField env ic i path a as raw body of
               Inl p \<Rightarrow> Inl p
             | Inr (body', ic') \<Rightarrow> fieldsLoop env ic' i path rest d body'))"
| "readListFromData env ic i path d rawList body as offsetConverter =
     (if rawList = [] then Inr (None, body, ic)
      else if path = [] then Inl IndexOutOfRange
      else
        (case sElem as of
           ElemResource elem \<Rightarrow>
             if sMaxItems as = 1 then
               (case dataToHcl env ic i (path @ [offsetConverter 0]) elem d [] of
                  Inl p \<Rightarrow> Inl p
                | Inr (err, nested, ic') \<Rightarrow> Inr (err, body @ [Block (last path) nested], ic'))
             else blocksLoop env ic i path elem d [0..<length rawList] (last path)
                    offsetConverter body
         | ElemSchema s \<Rightarrow>
             (case primitiveLoop env ic i path rawList [\<lparr>Type = TokenOBrack, Bytes = ''[''\<rparr>] of
                Inl p \<Rightarrow> Inl p
              | Inr (Some err, toks, ic') \<Rightarrow> Inr (Some err, body, ic')
              | Inr (None, toks, ic') \<Rightarrow>
                  Inr (None,
                       setAttribute body (last path)
                         (AttributeRaw (last path) (toks @ [\<lparr>Type = TokenCBrack, Bytes = '']''\<rparr>])),
                       ic'))
         | ElemNone \<Rightarrow> Inr (None, body, ic)))"
| "blocksLoop env ic i path elem d [] name offsetConverter body = Inr (None, body, ic)"
| "blocksLoop env ic i path elem d (offset # offsets) name offsetConverter body =
     (case dataToHcl env ic i (path @ [offsetConverter offset]) elem d [] of
        Inl p \<Rightarrow> Inl p
      | Inr (Some err, nested, ic') \<Rightarrow> Inr (Some err, body @ [Block name nested], ic')
      | Inr (None, nested, ic') \<Rightarrow>
          blocksLoop env ic' i path elem d offsets name offsetConverter
            (body @ [Block name nested]))"
  by pat_completeness auto
termination
proof (relation "inv_image (less_than <*lex*> less_than)
    (\<lambda>x. case x of
       Inl (Inl (env, ic, i, path, pr, d, body)) \<Rightarrow> (fieldsSize pr, 1)
     | Inl (Inr (env, ic, i, path, fs, d, body)) \<Rightarrow> (fieldsSize fs, 0)
     | Inr (Inl (env, ic, i, path, d, rawList, body, as, conv)) \<Rightarrow> (size as, 0)
     | Inr (Inr (env, ic, i, path, elem, d, offsets, name, conv, body)) \<Rightarrow>
         (fieldsSize elem, 2 + length offsets))", goal_cases)
  case 1
  show ?case by (intro wf_inv_image wf_lex_prod wf_less_than)
next
  case 2
  show ?case by (simp add: fieldsSize_def sortedFields_def size_list_sortSlice size_list_permute)
next
  case 3
  then show ?case by (simp add: fieldsSize_def)
next
  case 4
  then show ?case by (simp add: fieldsSize_def)
next
  case 5
  then show ?case by (simp add: fieldsSize_def)
next
  case 6
  then show ?case by (simp add: fieldsSize_def)
next
  case 7
  then show ?case by (simp add: fieldsSize_def)
next
  case 8
  then show ?case by (simp add: fieldsSize_elem)
next
  case 9
  then show ?case by (simp add: fieldsSize_elem)
next
  case 10
  show ?case by simp
next
  case 11
  then show ?case by simp
qed

text \<open>
  The entries of a schema have distinct names at every level: they come from Go maps.
\<close>

primrec distinctSchema :: "schemaT \<Rightarrow> bool" and distinctElem :: "elemT \<Rightarrow> bool" where
  "distinctSchema (Schema t r df m e) = distinctElem e"
| "distinctElem ElemNone = True"
| "distinctElem (ElemResource fs) =
     (distinct (map fst fs) \<and> list_all snd (map (map_prod id distinctSchema) fs))"
| "distinctElem (ElemSchema s) = distinctSchema s"

definition distinctFields :: "(string \<times> schemaT) list \<Rightarrow> bool" where
  "distinctFields fs = distinctElem (ElemResource fs)"

text \<open>
  An example: a job with a name, a cap on concurrent runs and a list of tasks, each with a
  key and a description; and resource data with two tasks.
\<close>

definition stringField :: schemaT where
  "stringField = Schema TypeString False None 0 ElemNone"

definition jobSchema :: "(string \<times> schemaT) list" where
  "jobSchema =
     [(''max_concurrent_runs'', Schema TypeInt False None 0 ElemNone),
      (''task'',
       Schema TypeList False None 0
         (ElemResource [(''description'', stringField), (''task_key'', stringField)])),
      (''name'', stringField)]"

definition jobData :: "string \<Rightarrow> raw \<times> bool" where
  "jobData p =
     (if p = ''name'' then (RawString ''nightly'', True)
      else if p = ''max_concurrent_runs'' then (RawInt 2, True)
      else if p = ''task'' then (RawList [RawNil, RawNil], True)
      else if p = ''task.0.task_key'' then (RawString ''extract'', True)
      else if p = ''task.0.description'' then (RawString ''first'', True)
      else if p = ''task.1.task_key'' then (RawString ''load'', True)
      else (RawNil, False))"

definition literalTokens :: "cty \<Rightarrow> Token list" where
  "literalTokens v =
     (case v of
        StringVal s \<Rightarrow> [\<lparr>Type = TokenQuotedLit, Bytes = s\<rparr>]
      | NumberIntVal n \<Rightarrow> [\<lparr>Type = TokenIdent, Bytes = FormatInt n\<rparr>]
      | _ \<Rightarrow> [])"

definition jobEnv :: "(string list \<Rightarrow> nat) \<Rightarrow> (resourceApproximation list) projEnv" where
  "jobEnv order =
     \<lparr>GetOk = jobData, ShouldOmitField = None,
      defaultShouldOmitFieldFunc = (\<lambda>ic p s. False), simpleNameFixes = [],
      TokensForValue = literalTokens, mapOrder = order, methods = specExterns\<rparr>"

definition jobKind :: importable where
  "jobKind =
     \<lparr>Service = ''jobs'', ir_Name = None, AccountLevel = False, WorkspaceLevel = True,
      Depends = []\<rparr>"

text \<open>The name of an attribute or a nested block of a body.\<close>

fun itemName :: "bodyItem \<Rightarrow> string" where
  "itemName (AttributeRaw n tokens) = n"
| "itemName (AttributeValue n v) = n"
| "itemName (Block n b) = n"

section \<open>Verified properties\<close>

subsection \<open>Emit and Add\<close>

lemma Emit_keeps_added:
  "importing ic s = Some True \<Longrightarrow> importing (Emit E ic r) s = Some True"
  by (cases "MatchPair E r")
     (auto simp add: Emit_def Let_def Has_def HasInState_def setImportingState_def
        isImporting_def split: option.splits)

lemma Add_keeps_added:
  "importing ic s = Some True \<Longrightarrow> importing (fst (Add E ic r)) s = Some True"
  by (auto simp add: Add_def Let_def setImportingState_def split: option.splits)

lemma runOps_keeps_added:
  "importing ic s = Some True \<Longrightarrow> importing (runOps E ic ops) s = Some True"
proof (induction ops arbitrary: ic)
  case Nil
  then show ?case by simp
next
  case (Cons op ops)
  then show ?case by (cases op) (simp_all add: Emit_keeps_added Add_keeps_added)
qed

lemma added_known:
  assumes "importing ic (String E r) = Some True"
  shows "HasInState E ic r True" "Has E ic r" "Add E ic r = (ic, r)" "Emit E ic r = ic"
  using assms
  by (simp_all add: HasInState_def Has_def isImporting_def Add_def Emit_def
        split: prod.splits option.splits)

lemma Emit_frame: "State (Emit E ic r) = State ic \<and> Scope (Emit E ic r) = Scope ic"
  by (cases "MatchPair E r")
     (simp add: Emit_def Let_def setImportingState_def split: option.splits)

lemma Emit_waitGroup: "waitGroup (Emit E ic r) \<le> waitGroup ic + 1"
  by (cases "MatchPair E r")
     (simp add: Emit_def Let_def setImportingState_def split: option.splits)

text \<open>
  Calls of \<^verbatim>\<open>Emit\<close> that do not overlap. For a resource whose identity string is
  in the importing map (with either flag) or that the State Approximation has,
  \<^verbatim>\<open>Emit\<close> returns the context it was given: no state changes and nothing is
  enqueued. A second \<^verbatim>\<open>Emit\<close> of the same resource after the first has returned
  changes nothing more, so the two calls together send at most one queue entry, and
  \<^verbatim>\<open>Emit\<close> itself never writes the State Approximation or the Scope.
\<close>

lemma Emit_sequential_dedup:
  "(importing ic (String E r) \<noteq> None \<or> stHas E (State ic) r \<longrightarrow> Emit E ic r = ic)
   \<and> Emit E (Emit E ic r) r = Emit E ic r
   \<and> waitGroup (Emit E (Emit E ic r) r) \<le> waitGroup ic + 1
   \<and> State (Emit E (Emit E ic r) r) = State ic
   \<and> Scope (Emit E (Emit E ic r) r) = Scope ic"
proof -
  have known: "Has E ic r" if "importing ic (String E r) \<noteq> None \<or> stHas E (State ic) r"
    using that by (auto simp add: Has_def HasInState_def isImporting_def)
  have noop: "Emit E ic r = ic" if "Has E ic r"
    using that by (simp add: Emit_def split: prod.splits option.splits)
  have idem: "Emit E (Emit E ic r) r = Emit E ic r"
    by (cases "MatchPair E r")
       (simp add: Emit_def Let_def Has_def HasInState_def setImportingState_def isImporting_def
          isServiceEnabled_def split: option.splits)
  show ?thesis
    using known noop idem Emit_waitGroup[of E ic r] Emit_frame[of E ic r] by auto
qed

lemma Emit_sequential_dedup_example:
  "Emit specExterns clusterContext exampleCluster =
     clusterContext\<lparr>importing := [''.databricks_cluster.c1'' \<mapsto> False], waitGroup := 1,
        defaultChannel := [exampleCluster]\<rparr>
   \<and> importing (Emit specExterns clusterContext exampleCluster)
        (String specExterns exampleCluster) = Some False
   \<and> Emit specExterns (Emit specExterns clusterContext exampleCluster) exampleCluster =
        Emit specExterns clusterContext exampleCluster"
proof -
  have first: "Emit specExterns clusterContext exampleCluster =
     clusterContext\<lparr>importing := [''.databricks_cluster.c1'' \<mapsto> False], waitGroup := 1,
        defaultChannel := [exampleCluster]\<rparr>"
    by (simp add: Emit_def Has_def HasInState_def isImporting_def isServiceEnabled_def
          setImportingState_def specExterns_def specMatchPair_def specGet_def clusterContext_def
          emptyContext_def exampleCluster_def)
  have flag: "importing (Emit specExterns clusterContext exampleCluster)
        (String specExterns exampleCluster) = Some False"
    unfolding first by (simp add: specExterns_def exampleCluster_def)
  show ?thesis
    using first flag
      Emit_sequential_dedup[of "Emit specExterns clusterContext exampleCluster" specExterns exampleCluster]
    by simp
qed

text \<open>
  C9. A resource whose match-pair value is the empty string is dropped at the entry
  point: \<^verbatim>\<open>Emit\<close> returns the context unchanged, so the importing map, the State
  Approximation, the Scope and every queue stay as they were.
\<close>

theorem Emit_empty_identifier:
  "snd (MatchPair E r) = [] \<Longrightarrow> Emit E ic r = ic"
  by (cases "MatchPair E r") (simp add: Emit_def)

theorem Emit_empty_identifier_witness:
  "snd (MatchPair specExterns (exampleCluster\<lparr>ID := []\<rparr>)) = []
   \<and> Emit specExterns clusterContext (exampleCluster\<lparr>ID := []\<rparr>) = clusterContext"
proof -
  have h: "snd (MatchPair specExterns (exampleCluster\<lparr>ID := []\<rparr>)) = []"
    by (simp add: specExterns_def specMatchPair_def exampleCluster_def)
  show ?thesis using h Emit_empty_identifier[OF h, of clusterContext] by simp
qed

text \<open>
  C10. \<^verbatim>\<open>Add\<close> of a resource whose data handle has a nil state appends nothing to the
  State Approximation and nothing to the Scope, and leaves the resource as it was. When
  the resource is not yet known as added (the guard at the head of \<^verbatim>\<open>Add\<close>), the only
  change is that its identity is marked as fully added in the importing map; from then
  on, after any further sequence of \<^verbatim>\<open>Emit\<close> and \<^verbatim>\<open>Add\<close> calls, every
  \<^verbatim>\<open>Has\<close> (with or without the only-added flag) for that identity answers true and
  every \<^verbatim>\<open>Add\<close> and \<^verbatim>\<open>Emit\<close> for it does nothing, although no entry of the State
  Approximation or the Scope was made for it. When the guard holds, \<^verbatim>\<open>Add\<close> does
  nothing at all.
\<close>

theorem Add_nil_state:
  assumes "dState (Data r) = None"
  shows "State (fst (Add E ic r)) = State ic \<and> Scope (fst (Add E ic r)) = Scope ic
     \<and> snd (Add E ic r) = r
     \<and> (HasInState E ic r True \<longrightarrow> fst (Add E ic r) = ic)
     \<and> (\<not> HasInState E ic r True \<longrightarrow>
          fst (Add E ic r) = ic\<lparr>importing := (importing ic)(String E r \<mapsto> True)\<rparr>
          \<and> (\<forall>ops r'. String E r' = String E r \<longrightarrow>
                HasInState E (runOps E (fst (Add E ic r)) ops) r' True
              \<and> Has E (runOps E (fst (Add E ic r)) ops) r'
              \<and> Add E (runOps E (fst (Add E ic r)) ops) r' = (runOps E (fst (Add E ic r)) ops, r')
              \<and> Emit E (runOps E (fst (Add E ic r)) ops) r' = runOps E (fst (Add E ic r)) ops))"
proof -
  have frame: "State (fst (Add E ic r)) = State ic \<and> Scope (fst (Add E ic r)) = Scope ic
     \<and> snd (Add E ic r) = r \<and> (HasInState E ic r True \<longrightarrow> fst (Add E ic r) = ic)"
    using assms by (simp add: Add_def Let_def setImportingState_def)
  have mark: "fst (Add E ic r) = ic\<lparr>importing := (importing ic)(String E r \<mapsto> True)\<rparr>"
    if "\<not> HasInState E ic r True"
    using assms that by (simp add: Add_def Let_def setImportingState_def)
  have later: "HasInState E (runOps E (fst (Add E ic r)) ops) r' True
              \<and> Has E (runOps E (fst (Add E ic r)) ops) r'
              \<and> Add E (runOps E (fst (Add E ic r)) ops) r' = (runOps E (fst (Add E ic r)) ops, r')
              \<and> Emit E (runOps E (fst (Add E ic r)) ops) r' = runOps E (fst (Add E ic r)) ops"
    if n: "\<not> HasInState E ic r True" and s: "String E r' = String E r" for ops r'
  proof -
    have "importing (fst (Add E ic r)) (String E r') = Some True"
      using mark[OF n] s by simp
    then have "importing (runOps E (fst (Add E ic r)) ops) (String E r') = Some True"
      by (rule runOps_keeps_added)
    then show ?thesis using added_known by blast
  qed
  show ?thesis using frame mark later by blast
qed

theorem Add_nil_state_witness:
  "dState (Data exampleCluster) = None
   \<and> \<not> HasInState specExterns clusterContext exampleCluster True
   \<and> Add specExterns clusterContext exampleCluster =
       (clusterContext\<lparr>importing := [''.databricks_cluster.c1'' \<mapsto> True]\<rparr>, exampleCluster)
   \<and> State (fst (Add specExterns clusterContext exampleCluster)) = []
   \<and> Scope (fst (Add specExterns clusterContext exampleCluster)) = []
   \<and> Has specExterns
        (runOps specExterns (fst (Add specExterns clusterContext exampleCluster))
           [EmitOp exampleCluster, AddOp exampleCluster]) exampleCluster"
proof -
  have h: "dState (Data exampleCluster) = None"
    by (simp add: exampleCluster_def)
  have n: "\<not> HasInState specExterns clusterContext exampleCluster True"
    by (simp add: HasInState_def isImporting_def specExterns_def specMatchPair_def specGet_def
          clusterContext_def emptyContext_def exampleCluster_def)
  have s: "String specExterns exampleCluster = ''.databricks_cluster.c1''"
    by (simp add: specExterns_def exampleCluster_def)
  have e: "State clusterContext = [] \<and> Scope clusterContext = []
      \<and> importing clusterContext = Map.empty"
    by (simp add: clusterContext_def emptyContext_def)
  note A = Add_nil_state[OF h, of specExterns clusterContext]
  have a: "Add specExterns clusterContext exampleCluster =
       (clusterContext\<lparr>importing := [''.databricks_cluster.c1'' \<mapsto> True]\<rparr>, exampleCluster)"
    using A n s e by (simp add: prod_eq_iff)
  have st: "State (fst (Add specExterns clusterContext exampleCluster)) = []"
    and sc: "Scope (fst (Add specExterns clusterContext exampleCluster)) = []"
    using A e by simp_all
  have later: "Has specExterns
        (runOps specExterns (fst (Add specExterns clusterContext exampleCluster))
           [EmitOp exampleCluster, AddOp exampleCluster]) exampleCluster"
    using A n by blast
  show ?thesis
    using h n a st sc later by blast
qed

subsection \<open>The Reference Resolver\<close>

lemma unquote_maybeAddQuoteCharacter: "unquote (maybeAddQuoteCharacter s) = s"
proof -
  let ?esc = "\<lambda>c. if c = CHR 0x5C then [CHR 0x5C, CHR 0x5C]
                   else if c = CHR 0x22 then [CHR 0x5C, CHR 0x22] else [c]"
  have e: "maybeAddQuoteCharacter s = concat (map ?esc s)"
    by (induction s) (simp_all add: maybeAddQuoteCharacter_def ReplaceAll_def)
  show ?thesis unfolding e
  proof (induction s)
    case Nil
    show ?case by simp
  next
    case (Cons c s)
    show ?case
    proof (cases "c = CHR 0x5C \<or> c = CHR 0x22")
      case True
      with Cons show ?thesis by auto
    next
      case False
      with Cons show ?thesis by (cases "concat (map ?esc s)") auto
    qed
  qed
qed

lemma maybeAddQuoteCharacter_plain:
  "CHR 0x5C \<notin> set s \<Longrightarrow> CHR 0x22 \<notin> set s \<Longrightarrow> maybeAddQuoteCharacter s = s"
  by (induction s) (auto simp add: maybeAddQuoteCharacter_def ReplaceAll_def)

lemma scanInstances_prefix_find:
  "scanInstances MatchPrefix v mv attr is =
     (case find (\<lambda>i. case Attributes i attr of None \<Rightarrow> False | Some c \<Rightarrow> HasPrefix v c) is of
        None \<Rightarrow> None | Some i \<Rightarrow> Attributes i attr)"
  by (induction "is") (auto split: option.splits)

lemma find_append_first:
  "find P (xs @ ys) = (case find P xs of None \<Rightarrow> find P ys | Some x \<Rightarrow> Some x)"
  by (induction xs) auto

lemma find_map_comp: "find P (map f xs) = map_option f (find (P \<circ> f) xs)"
  by (induction xs) auto

lemma scanResources_prefix_find:
  "scanResources MatchPrefix v mv attr pick srs =
     (case find (prefixCandidate attr v) (instancesInScanOrder srs) of
        None \<Rightarrow> ([], None)
      | Some (sr, i) \<Rightarrow> (the (Attributes i attr), Some (genTraversalTokens sr pick)))"
proof (induction srs)
  case Nil
  show ?case by (simp add: instancesInScanOrder_def)
next
  case (Cons sr srs)
  have c: "instancesInScanOrder (sr # srs) =
      map (\<lambda>i. (sr, i)) (Instances sr) @ instancesInScanOrder srs"
    by (simp add: instancesInScanOrder_def)
  have p: "(prefixCandidate attr v \<circ> (\<lambda>i. (sr, i))) =
      (\<lambda>i. case Attributes i attr of None \<Rightarrow> False | Some c \<Rightarrow> HasPrefix v c)"
    by (auto simp add: prefixCandidate_def fun_eq_iff)
  show ?case
    using Cons
    by (auto simp add: c find_append_first find_map_comp p scanInstances_prefix_find
          split: option.splits dest: find_Some_iff[THEN iffD1])
qed

lemma Find_prefix:
  assumes "ref_MatchType ref = MatchPrefix"
  shows "Find E ic r pick ref =
     (case find (prefixCandidate (Attribute r) (Value r))
             (instancesInScanOrder (stResources E (State ic) (Resource r))) of
        None \<Rightarrow> ([], None)
      | Some (sr, i) \<Rightarrow> (the (Attributes i (Attribute r)), Some (genTraversalTokens sr pick)))"
  using assms by (simp add: Find_def findMatchValue_def scanResources_prefix_find)

text \<open>
  C3. Prefix reference resolution. With the prefix policy the resolver never asks the
  direct index: its result is the same whatever the index lookup answers. It scans the
  instances of the target kind in order and takes the first one whose attribute value
  \<open>c\<close> is a prefix of the queried value \<open>v\<close>. The expression is an opening quote with
  the interpolation start, the reference to that resource, the interpolation end, one
  literal and the closing quote. The literal is the suffix of \<open>v\<close> after its first
  \<open>length c\<close> bytes with every backslash and every double quote escaped by a backslash;
  it is the suffix itself when the suffix has neither. \<open>c\<close> followed by the suffix is
  \<open>v\<close>, and so is \<open>c\<close> followed by the literal with its escapes undone.
\<close>

theorem prefix_resolution:
  assumes mt: "ref_MatchType ref = MatchPrefix" and mtv: "MatchTypeValue E ref = MatchPrefix"
      and first: "find (prefixCandidate (MatchAttribute E ref) v)
                    (instancesInScanOrder (stResources E (State ic) (ref_Resource ref)))
                  = Some (sr, i)"
      and c: "Attributes i (MatchAttribute E ref) = Some c"
  shows "getTraversalTokens E ic ref v =
           Inr (Some ([\<lparr>Type = TokenOQuote, Bytes = [CHR 0x22, CHR ''$'', CHR ''{'']\<rparr>]
              @ TokensForTraversal (genTraversalTokens sr (MatchAttribute E ref))
              @ [\<lparr>Type = TokenCQuote, Bytes = ''}''\<rparr>,
                 \<lparr>Type = TokenQuotedLit, Bytes = maybeAddQuoteCharacter (drop (length c) v)\<rparr>,
                 \<lparr>Type = TokenCQuote, Bytes = [CHR 0x22]\<rparr>]))
         \<and> c @ drop (length c) v = v
         \<and> c @ unquote (maybeAddQuoteCharacter (drop (length c) v)) = v
         \<and> (CHR 0x5C \<notin> set (drop (length c) v) \<and> CHR 0x22 \<notin> set (drop (length c) v)
              \<longrightarrow> maybeAddQuoteCharacter (drop (length c) v) = drop (length c) v)
         \<and> (\<forall>g. getTraversalTokens (E\<lparr>stGet := g\<rparr>) ic ref v = getTraversalTokens E ic ref v)"
proof -
  let ?attr = "MatchAttribute E ref"
  let ?tokens = "[\<lparr>Type = TokenOQuote, Bytes = [CHR 0x22, CHR ''$'', CHR ''{'']\<rparr>]
              @ TokensForTraversal (genTraversalTokens sr ?attr)
              @ [\<lparr>Type = TokenCQuote, Bytes = ''}''\<rparr>,
                 \<lparr>Type = TokenQuotedLit, Bytes = maybeAddQuoteCharacter (drop (length c) v)\<rparr>,
                 \<lparr>Type = TokenCQuote, Bytes = [CHR 0x22]\<rparr>]"
  from first have "prefixCandidate ?attr v (sr, i)"
    by (auto simp add: find_Some_iff)
  with c have "HasPrefix v c"
    by (simp add: prefixCandidate_def)
  then have le: "length c \<le> length v" and tk: "take (length c) v = c"
    by (simp_all add: HasPrefix_def)
  have cat: "c @ drop (length c) v = v"
    using tk append_take_drop_id[of "length c" v] by simp
  have found: "Find E' ic \<lparr>Resource = ref_Resource ref, ID = [], Name = [], Mode = [],
                   Attribute = ?attr, Value = v, Data = \<lparr>dState = None\<rparr>\<rparr> ?attr ref
       = (c, Some (genTraversalTokens sr ?attr))"
    if "stResources E' = stResources E" for E' :: "'a externs"
    using first c that by (simp add: Find_prefix[OF mt])
  have tokens: "getTraversalTokens E' ic ref v = Inr (Some ?tokens)"
    if "MatchAttribute E' ref = ?attr" "stResources E' = stResources E"
       "MatchTypeValue E' ref = MatchPrefix" for E' :: "'a externs"
    using le that by (simp add: getTraversalTokens_def found sliceFrom_def slice_def)
  show ?thesis
    using tokens[of E] tokens[of "E\<lparr>stGet := g\<rparr>" for g] mtv cat
    by (simp add: unquote_maybeAddQuoteCharacter maybeAddQuoteCharacter_plain)
qed

theorem prefix_resolution_witness:
  "getTraversalTokens specExterns (emptyContext\<lparr>State := [fooDirectory]\<rparr>) prefixReference
       ''foo-suffix'' =
     Inr (Some [\<lparr>Type = TokenOQuote, Bytes = [CHR 0x22, CHR ''$'', CHR ''{'']\<rparr>,
                \<lparr>Type = TokenIdent, Bytes = ''databricks_directory''\<rparr>,
                \<lparr>Type = TokenDot, Bytes = ''.''\<rparr>, \<lparr>Type = TokenIdent, Bytes = ''foo''\<rparr>,
                \<lparr>Type = TokenDot, Bytes = ''.''\<rparr>, \<lparr>Type = TokenIdent, Bytes = ''path''\<rparr>,
                \<lparr>Type = TokenCQuote, Bytes = ''}''\<rparr>,
                \<lparr>Type = TokenQuotedLit, Bytes = ''-suffix''\<rparr>,
                \<lparr>Type = TokenCQuote, Bytes = [CHR 0x22]\<rparr>])
   \<and> ''foo'' @ ''-suffix'' = ''foo-suffix''"
  using prefix_resolution[of prefixReference specExterns "''foo-suffix''"
      "emptyContext\<lparr>State := [fooDirectory]\<rparr>" fooDirectory
      "\<lparr>Attributes = [''id'' \<mapsto> ''1'', ''path'' \<mapsto> ''foo'']\<rparr>" "''foo''"]
  by (simp add: prefixReference_def specExterns_def emptyContext_def fooDirectory_def
      instancesInScanOrder_def prefixCandidate_def HasPrefix_def TokensForTraversal_def
      genTraversalTokens_def maybeAddQuoteCharacter_def ReplaceAll_def)

text \<open>
  The claim as it is written fails twice. For the value \<open>foo"x\<close> and the candidate
  \<open>foo\<close> the literal of the expression is \<open>\"x\<close>, not the suffix \<open>"x\<close>, so the
  candidate followed by the emitted bytes is not the value. And of two instances whose
  values \<open>fo\<close> and \<open>foo\<close> are both prefixes of \<open>foo-suffix\<close>, the resolver returns the
  first in scan order, \<open>fo\<close>, not the matched portion of every one of them.
\<close>

theorem prefix_resolution_counterexample:
  "getTraversalTokens specExterns (emptyContext\<lparr>State := [fooDirectory]\<rparr>) prefixReference
       (''foo'' @ [CHR 0x22] @ ''x'') =
     Inr (Some [\<lparr>Type = TokenOQuote, Bytes = [CHR 0x22, CHR ''$'', CHR ''{'']\<rparr>,
                \<lparr>Type = TokenIdent, Bytes = ''databricks_directory''\<rparr>,
                \<lparr>Type = TokenDot, Bytes = ''.''\<rparr>, \<lparr>Type = TokenIdent, Bytes = ''foo''\<rparr>,
                \<lparr>Type = TokenDot, Bytes = ''.''\<rparr>, \<lparr>Type = TokenIdent, Bytes = ''path''\<rparr>,
                \<lparr>Type = TokenCQuote, Bytes = ''}''\<rparr>,
                \<lparr>Type = TokenQuotedLit, Bytes = [CHR 0x5C, CHR 0x22, CHR ''x'']\<rparr>,
                \<lparr>Type = TokenCQuote, Bytes = [CHR 0x22]\<rparr>])
   \<and> ''foo'' @ [CHR 0x5C, CHR 0x22, CHR ''x''] \<noteq> ''foo'' @ [CHR 0x22] @ ''x''
   \<and> prefixCandidate ''path'' ''foo-suffix''
        (fooDirectory, \<lparr>Attributes = [''id'' \<mapsto> ''1'', ''path'' \<mapsto> ''foo'']\<rparr>)
   \<and> Find specExterns (emptyContext\<lparr>State := [foDirectory, fooDirectory]\<rparr>)
        \<lparr>Resource = ''databricks_directory'', ID = [], Name = [], Mode = [],
         Attribute = ''path'', Value = ''foo-suffix'', Data = \<lparr>dState = None\<rparr>\<rparr>
        ''path'' prefixReference
       = (''fo'', Some [TraverseRoot ''databricks_directory'', TraverseAttr ''fo'',
                        TraverseAttr ''path''])"
  by (simp add: getTraversalTokens_def Find_def findMatchValue_def prefixReference_def
      specExterns_def emptyContext_def fooDirectory_def foDirectory_def prefixCandidate_def
      HasPrefix_def TokensForTraversal_def sliceFrom_def slice_def
      genTraversalTokens_def maybeAddQuoteCharacter_def ReplaceAll_def)

lemma take_capture_drop:
  assumes "0 \<le> a" "a \<le> b"
  shows "take (nat a) v @ take (nat (b - a)) (drop (nat a) v) @ drop (nat b) v = v"
proof -
  have "nat b = nat a + nat (b - a)"
    using assms by linarith
  then have "drop (nat b) v = drop (nat (b - a)) (drop (nat a) v)"
    by (simp add: add.commute)
  then show ?thesis
    using append_take_drop_id[of "nat (b - a)" "drop (nat a) v"]
      append_take_drop_id[of "nat a" v]
    by simp
qed

text \<open>
  C6. Regexp reference resolution. With the regexp policy the resolver returns no tokens
  when the reference has no pattern, when the pattern gives fewer than two submatch
  strings on the raw value (no match, or no capture group), and when the direct lookup of
  the first captured substring finds nothing. It also returns no tokens whenever the
  match does not consist of exactly four offsets, that is, unless the pattern has exactly
  one capture group. When it has exactly one, at offsets \<open>a\<close> to \<open>b\<close> inside the value,
  and the lookup of the captured substring succeeds, the expression is a quote, a literal,
  the interpolated reference, a literal and the closing quote; the literals are the bytes
  of the raw value before \<open>a\<close> and from \<open>b\<close> on, with every backslash and double quote
  escaped by a backslash, so that undoing the escapes gives back the raw value around the
  captured substring.
\<close>

theorem regexp_resolution:
  assumes mt: "ref_MatchType ref = MatchRegexp" and mtv: "MatchTypeValue E ref = MatchRegexp"
  shows "(Regexp ref = None \<longrightarrow> getTraversalTokens E ic ref v = Inr None)
     \<and> (\<forall>re. Regexp ref = Some re \<and> length (FindStringSubmatch re v) < 2
            \<longrightarrow> getTraversalTokens E ic ref v = Inr None)
     \<and> (\<forall>re. Regexp ref = Some re \<and> 2 \<le> length (FindStringSubmatch re v)
             \<and> stGet E (State ic) (ref_Resource ref) (MatchAttribute E ref)
                  (FindStringSubmatch re v ! 1) = None
            \<longrightarrow> getTraversalTokens E ic ref v = Inr None)
     \<and> (\<forall>re. Regexp ref = Some re \<and> length (re v) \<noteq> 4
            \<longrightarrow> getTraversalTokens E ic ref v = Inr None)
     \<and> (\<forall>re m0 m1 a b sr. Regexp ref = Some re \<and> re v = [m0, m1, a, b]
             \<and> 0 \<le> a \<and> a \<le> b \<and> b \<le> int (length v)
             \<and> stGet E (State ic) (ref_Resource ref) (MatchAttribute E ref)
                  (take (nat (b - a)) (drop (nat a) v)) = Some sr
            \<longrightarrow> FindStringSubmatch re v ! 1 = take (nat (b - a)) (drop (nat a) v)
               \<and> getTraversalTokens E ic ref v =
                 Inr (Some ([\<lparr>Type = TokenOQuote, Bytes = [CHR 0x22]\<rparr>,
                        \<lparr>Type = TokenQuotedLit, Bytes = maybeAddQuoteCharacter (take (nat a) v)\<rparr>,
                        \<lparr>Type = TokenOQuote, Bytes = ''${''\<rparr>]
                      @ TokensForTraversal (genTraversalTokens sr (MatchAttribute E ref))
                      @ [\<lparr>Type = TokenCQuote, Bytes = ''}''\<rparr>,
                         \<lparr>Type = TokenQuotedLit, Bytes = maybeAddQuoteCharacter (drop (nat b) v)\<rparr>,
                         \<lparr>Type = TokenCQuote, Bytes = [CHR 0x22]\<rparr>]))
               \<and> unquote (maybeAddQuoteCharacter (take (nat a) v))
                   @ take (nat (b - a)) (drop (nat a) v)
                   @ unquote (maybeAddQuoteCharacter (drop (nat b) v)) = v)"
proof (intro conjI allI impI)
  show "getTraversalTokens E ic ref v = Inr None" if "Regexp ref = None"
    using that mt by (simp add: getTraversalTokens_def Find_def findMatchValue_def)
next
  fix re
  assume "Regexp ref = Some re \<and> length (FindStringSubmatch re v) < 2"
  then show "getTraversalTokens E ic ref v = Inr None"
    using mt by (simp add: getTraversalTokens_def Find_def findMatchValue_def)
next
  fix re
  assume "Regexp ref = Some re \<and> 2 \<le> length (FindStringSubmatch re v)
             \<and> stGet E (State ic) (ref_Resource ref) (MatchAttribute E ref)
                  (FindStringSubmatch re v ! 1) = None"
  then show "getTraversalTokens E ic ref v = Inr None"
    using mt by (simp add: getTraversalTokens_def Find_def findMatchValue_def Let_def)
next
  fix re
  assume "Regexp ref = Some re \<and> length (re v) \<noteq> 4"
  then show "getTraversalTokens E ic ref v = Inr None"
    using mt mtv
    by (simp add: getTraversalTokens_def Find_def findMatchValue_def Let_def
          split: option.splits prod.splits)
next
  fix re m0 m1 a b sr
  assume h: "Regexp ref = Some re \<and> re v = [m0, m1, a, b]
             \<and> 0 \<le> a \<and> a \<le> b \<and> b \<le> int (length v)
             \<and> stGet E (State ic) (ref_Resource ref) (MatchAttribute E ref)
                  (take (nat (b - a)) (drop (nat a) v)) = Some sr"
  then have fs: "FindStringSubmatch re v =
      [if 0 \<le> m0 then take (nat (m1 - m0)) (drop (nat m0) v) else [],
       take (nat (b - a)) (drop (nat a) v)]"
    by (simp add: FindStringSubmatch_def)
  show "FindStringSubmatch re v ! 1 = take (nat (b - a)) (drop (nat a) v)"
    by (simp add: fs)
  show "getTraversalTokens E ic ref v =
                 Inr (Some ([\<lparr>Type = TokenOQuote, Bytes = [CHR 0x22]\<rparr>,
                        \<lparr>Type = TokenQuotedLit, Bytes = maybeAddQuoteCharacter (take (nat a) v)\<rparr>,
                        \<lparr>Type = TokenOQuote, Bytes = ''${''\<rparr>]
                      @ TokensForTraversal (genTraversalTokens sr (MatchAttribute E ref))
                      @ [\<lparr>Type = TokenCQuote, Bytes = ''}''\<rparr>,
                         \<lparr>Type = TokenQuotedLit, Bytes = maybeAddQuoteCharacter (drop (nat b) v)\<rparr>,
                         \<lparr>Type = TokenCQuote, Bytes = [CHR 0x22]\<rparr>]))"
    using h mt mtv
    by (simp add: getTraversalTokens_def Find_def findMatchValue_def fs slice_def sliceFrom_def)
  show "unquote (maybeAddQuoteCharacter (take (nat a) v))
                   @ take (nat (b - a)) (drop (nat a) v)
                   @ unquote (maybeAddQuoteCharacter (drop (nat b) v)) = v"
    using h by (simp add: unquote_maybeAddQuoteCharacter take_capture_drop)
qed

theorem regexp_resolution_witness:
  "getTraversalTokens specExterns (emptyContext\<lparr>State := [fooDirectory]\<rparr>) oneGroupReference
       ''/dirs/foo/x'' =
     Inr (Some [\<lparr>Type = TokenOQuote, Bytes = [CHR 0x22]\<rparr>,
                \<lparr>Type = TokenQuotedLit, Bytes = ''/dirs/''\<rparr>,
                \<lparr>Type = TokenOQuote, Bytes = ''${''\<rparr>,
                \<lparr>Type = TokenIdent, Bytes = ''databricks_directory''\<rparr>,
                \<lparr>Type = TokenDot, Bytes = ''.''\<rparr>, \<lparr>Type = TokenIdent, Bytes = ''foo''\<rparr>,
                \<lparr>Type = TokenDot, Bytes = ''.''\<rparr>, \<lparr>Type = TokenIdent, Bytes = ''path''\<rparr>,
                \<lparr>Type = TokenCQuote, Bytes = ''}''\<rparr>,
                \<lparr>Type = TokenQuotedLit, Bytes = ''/x''\<rparr>,
                \<lparr>Type = TokenCQuote, Bytes = [CHR 0x22]\<rparr>])
   \<and> getTraversalTokens specExterns (emptyContext\<lparr>State := [fooDirectory]\<rparr>)
        oneGroupReference ''/other'' = Inr None"
proof -
  let ?ic = "emptyContext\<lparr>State := [fooDirectory]\<rparr>"
  have mt: "ref_MatchType oneGroupReference = MatchRegexp"
    and mtv: "MatchTypeValue specExterns oneGroupReference = MatchRegexp"
    by (simp_all add: oneGroupReference_def specExterns_def)
  note R = regexp_resolution[OF mt mtv, where v = "''/dirs/foo/x''" and ic = ?ic]
  note N = regexp_resolution[OF mt mtv, where v = "''/other''" and ic = ?ic]
  have re: "Regexp oneGroupReference =
      Some (\<lambda>s. if s = ''/dirs/foo/x'' then [0, 11, 6, 9] else [])"
    by (simp add: oneGroupReference_def)
  have get: "stGet specExterns (State ?ic) (ref_Resource oneGroupReference)
      (MatchAttribute specExterns oneGroupReference)
      (take (nat (9 - 6)) (drop (nat 6) ''/dirs/foo/x'')) = Some fooDirectory"
    by (simp add: specExterns_def specGet_def oneGroupReference_def emptyContext_def
          fooDirectory_def)
  have "getTraversalTokens specExterns ?ic oneGroupReference ''/dirs/foo/x'' =
      Inr (Some ([\<lparr>Type = TokenOQuote, Bytes = [CHR 0x22]\<rparr>,
         \<lparr>Type = TokenQuotedLit, Bytes = maybeAddQuoteCharacter (take (nat 6) ''/dirs/foo/x'')\<rparr>,
         \<lparr>Type = TokenOQuote, Bytes = ''${''\<rparr>]
        @ TokensForTraversal
            (genTraversalTokens fooDirectory (MatchAttribute specExterns oneGroupReference))
        @ [\<lparr>Type = TokenCQuote, Bytes = ''}''\<rparr>,
           \<lparr>Type = TokenQuotedLit, Bytes = maybeAddQuoteCharacter (drop (nat 9) ''/dirs/foo/x'')\<rparr>,
           \<lparr>Type = TokenCQuote, Bytes = [CHR 0x22]\<rparr>]))"
    using R re get by simp
  moreover have "getTraversalTokens specExterns ?ic oneGroupReference ''/other'' = Inr None"
    using N re by simp
  ultimately show ?thesis
    by (simp add: specExterns_def oneGroupReference_def fooDirectory_def
          TokensForTraversal_def genTraversalTokens_def maybeAddQuoteCharacter_def
          ReplaceAll_def)
qed

text \<open>
  The claim as it is written fails twice. A pattern with two capture groups matches
  \<open>/dirs/foo/x\<close>, the lookup of its first capture \<open>foo\<close> succeeds, and yet no
  expression is built. And for the value \<open>"foo"\<close> with the capture between the quotes,
  the literals of the expression are \<open>\"\<close>, not the bytes \<open>"\<close> of the raw value.
\<close>

theorem regexp_resolution_counterexample:
  "Find specExterns (emptyContext\<lparr>State := [fooDirectory]\<rparr>)
        \<lparr>Resource = ''databricks_directory'', ID = [], Name = [], Mode = [],
         Attribute = ''path'', Value = ''/dirs/foo/x'', Data = \<lparr>dState = None\<rparr>\<rparr>
        ''path'' twoGroupReference
       = (''foo'', Some [TraverseRoot ''databricks_directory'', TraverseAttr ''foo'',
                         TraverseAttr ''path''])
   \<and> getTraversalTokens specExterns (emptyContext\<lparr>State := [fooDirectory]\<rparr>)
        twoGroupReference ''/dirs/foo/x'' = Inr None
   \<and> getTraversalTokens specExterns (emptyContext\<lparr>State := [fooDirectory]\<rparr>)
        quotedReference ([CHR 0x22] @ ''foo'' @ [CHR 0x22]) =
     Inr (Some [\<lparr>Type = TokenOQuote, Bytes = [CHR 0x22]\<rparr>,
                \<lparr>Type = TokenQuotedLit, Bytes = [CHR 0x5C, CHR 0x22]\<rparr>,
                \<lparr>Type = TokenOQuote, Bytes = ''${''\<rparr>,
                \<lparr>Type = TokenIdent, Bytes = ''databricks_directory''\<rparr>,
                \<lparr>Type = TokenDot, Bytes = ''.''\<rparr>, \<lparr>Type = TokenIdent, Bytes = ''foo''\<rparr>,
                \<lparr>Type = TokenDot, Bytes = ''.''\<rparr>, \<lparr>Type = TokenIdent, Bytes = ''path''\<rparr>,
                \<lparr>Type = TokenCQuote, Bytes = ''}''\<rparr>,
                \<lparr>Type = TokenQuotedLit, Bytes = [CHR 0x5C, CHR 0x22]\<rparr>,
                \<lparr>Type = TokenCQuote, Bytes = [CHR 0x22]\<rparr>])"
  by (simp add: getTraversalTokens_def Find_def findMatchValue_def FindStringSubmatch_def
      twoGroupReference_def quotedReference_def specExterns_def specGet_def emptyContext_def
      fooDirectory_def TokensForTraversal_def sliceFrom_def slice_def genTraversalTokens_def
      maybeAddQuoteCharacter_def ReplaceAll_def)

lemma referenceLoop_first:
  assumes "ds = pre @ d # post" "Path d = match" "\<forall>d' \<in> set pre. Path d' \<noteq> match"
  shows "referenceLoop E ic ds match path v lit = referenceLoop E ic (d # post) match path v lit"
  using assms by (induction pre arbitrary: ds) auto

text \<open>
  C7. The edge cases of \<^verbatim>\<open>reference\<close>. Let \<open>d\<close> be the declaration of the kind that
  matches the field: the first one whose path is the field's path without its list
  offsets. When \<open>d\<close> is flagged file-backed, the result is the string expression
  \<open>"${path.module}/<value>"\<close> and the context is returned as it was; the result names
  neither the parameters of the State Approximation nor its content, so no lookup decides
  it. When \<open>d\<close> is flagged as an external variable (and not file-backed, which is tested
  first), the variable named by the first path element, an underscore and the value is
  registered in the variables map with an empty description, and the result is the
  traversal \<open>var.<name>\<close> in place of the literal.
\<close>

theorem reference_edge_cases:
  assumes "Depends i = pre @ d # post"
      and "Path d = dependsReReplaceAll (Join path ''.'') []"
      and "\<forall>d' \<in> set pre. Path d' \<noteq> dependsReReplaceAll (Join path ''.'') []"
  shows "(File d \<longrightarrow> reference E ic i path v lit =
              Inr ([\<lparr>Type = TokenOQuote, Bytes = [CHR 0x22]\<rparr>,
                    \<lparr>Type = TokenQuotedLit, Bytes = ''${path.module}/'' @ v\<rparr>,
                    \<lparr>Type = TokenCQuote, Bytes = [CHR 0x22]\<rparr>], ic))
       \<and> (\<not> File d \<and> Variable d \<and> path \<noteq> [] \<longrightarrow> reference E ic i path v lit =
              Inr ([\<lparr>Type = TokenIdent, Bytes = ''var''\<rparr>, \<lparr>Type = TokenDot, Bytes = ''.''\<rparr>,
                    \<lparr>Type = TokenIdent, Bytes = hd path @ ''_'' @ v\<rparr>],
                   ic\<lparr>variables := (variables ic)(hd path @ ''_'' @ v \<mapsto> [])\<rparr>))"
  using referenceLoop_first[OF assms, of E ic path v lit] assms(2)
  by (cases path) (simp_all add: reference_def variable_def TokensForTraversal_def)

theorem reference_edge_cases_witness:
  "reference specExterns emptyContext notebookKind [''source''] ''notebooks/a.py''
       [\<lparr>Type = TokenQuotedLit, Bytes = ''notebooks/a.py''\<rparr>] =
     Inr ([\<lparr>Type = TokenOQuote, Bytes = [CHR 0x22]\<rparr>,
           \<lparr>Type = TokenQuotedLit, Bytes = ''${path.module}/notebooks/a.py''\<rparr>,
           \<lparr>Type = TokenCQuote, Bytes = [CHR 0x22]\<rparr>], emptyContext)
   \<and> reference specExterns emptyContext notebookKind [''token'', ''0'', ''secret''] ''s3cr3t''
       [\<lparr>Type = TokenQuotedLit, Bytes = ''s3cr3t''\<rparr>] =
     Inr ([\<lparr>Type = TokenIdent, Bytes = ''var''\<rparr>, \<lparr>Type = TokenDot, Bytes = ''.''\<rparr>,
           \<lparr>Type = TokenIdent, Bytes = ''token_s3cr3t''\<rparr>],
          emptyContext\<lparr>variables := [''token_s3cr3t'' \<mapsto> []]\<rparr>)"
proof -
  let ?file = "\<lparr>Path = ''source'', ref_Resource = [], Match = [], ref_MatchType = MatchDefault,
          File = True, Variable = False, Regexp = None\<rparr>"
  let ?var = "\<lparr>Path = ''token.secret'', ref_Resource = [], Match = [],
          ref_MatchType = MatchDefault, File = False, Variable = True, Regexp = None\<rparr>"
  have p1: "Path ?file = dependsReReplaceAll (Join [''source''] ''.'') []"
    by (simp add: isDigit_def)
  have p2: "Path ?var = dependsReReplaceAll (Join [''token'', ''0'', ''secret''] ''.'') []"
    by (simp add: isDigit_def)
  have d1: "Depends notebookKind = [] @ ?file # [?var]"
    and d2: "Depends notebookKind = [?file] @ ?var # []"
    by (simp_all add: notebookKind_def)
  have n1: "\<forall>d' \<in> set []. Path d' \<noteq> dependsReReplaceAll (Join [''source''] ''.'') []"
    by simp
  have n2: "\<forall>d' \<in> set [?file].
      Path d' \<noteq> dependsReReplaceAll (Join [''token'', ''0'', ''secret''] ''.'') []"
    by (simp add: isDigit_def)
  have v: "variables emptyContext = Map.empty"
    by (simp add: emptyContext_def)
  show ?thesis
    using reference_edge_cases[OF d1 p1 n1, of specExterns emptyContext
            "''notebooks/a.py''" "[\<lparr>Type = TokenQuotedLit, Bytes = ''notebooks/a.py''\<rparr>]"]
          reference_edge_cases[OF d2 p2 n2, of specExterns emptyContext
            "''s3cr3t''" "[\<lparr>Type = TokenQuotedLit, Bytes = ''s3cr3t''\<rparr>]"]
    by (simp add: v)
qed

subsection \<open>Resource names\<close>

lemma length_md5Sum: "length (md5Sum s) = 16"
  by (simp add: md5Sum_def leBytes32_def split: prod.splits)

lemma length_hexString: "length (hexString bs) = 2 * length bs"
  by (induction bs) (simp_all add: hexString_def)

lemma length_fallback: "length (take 12 (''r'' @ hexString (md5Sum s))) = 12"
  by (simp add: length_hexString length_md5Sum)

lemma fallback_eq_iff:
  "take 12 (''r'' @ hexString (md5Sum s)) = take 12 (''r'' @ hexString (md5Sum t))
     \<longleftrightarrow> take 11 (hexString (md5Sum s)) = take 11 (hexString (md5Sum t))"
  by simp

lemma ResourceName_named:
  "n \<noteq> [] \<Longrightarrow> prefix ic = [] \<Longrightarrow> ic_nameFixes ic = nameFixes \<Longrightarrow>
     ResourceName ic (named n) = ResourceName namingContext (named n)"
proof -
  assume h: "n \<noteq> []" "prefix ic = []" "ic_nameFixes ic = nameFixes"
  have o: "origCaseName ic (named n) = origCaseName namingContext (named n)"
    using h by (simp add: origCaseName_def rawName_def named_def namingContext_def
          emptyContext_def)
  have "normalizedName ic (named n) = normalizedName namingContext (named n)"
    using h by (simp add: normalizedName_def o) (simp add: namingContext_def emptyContext_def)
  then show ?thesis
    by (simp only: ResourceName_def o)
qed

lemma name_general_policy:
  "ResourceName namingContext (named ''General Policy - All Users'') = ''general_policy_all_users''"
  by code_simp

lemma name_0A: "ResourceName namingContext (named ''0A'') = ''r3ee74005e91''"
  by code_simp

lemma name_0a: "ResourceName namingContext (named ''0a'') = ''re99bb33727d''"
  by code_simp

text \<open>
  C4. Resource naming. With an empty prefix and the fixes of \<^verbatim>\<open>nameFixes\<close>, the name
  \<open>General Policy - All Users\<close> becomes \<open>general_policy_all_users\<close>, and the
  names \<open>0A\<close> and \<open>0a\<close> get different final names. Whenever the normalized name is
  empty or begins with a digit, the result is the letter \<open>r\<close> and the first eleven
  hexadecimal digits of the MD5 of the prefixed name in its original case (of the id when
  the normalized name is empty): twelve characters, a function of that text alone.
  Otherwise the result is the normalized name, in which the case of the raw name is lost.
  Two names that both normalize to a name beginning with a digit get the same final name
  exactly when the first eleven hexadecimal digits of the MD5 of their original-case names
  are the same.
\<close>

theorem ResourceName_naming:
  "(prefix ic = [] \<and> ic_nameFixes ic = nameFixes \<longrightarrow>
      ResourceName ic (named ''General Policy - All Users'') = ''general_policy_all_users''
      \<and> ResourceName ic (named ''0A'') \<noteq> ResourceName ic (named ''0a''))
   \<and> (normalizedName ic r = [] \<or> startsWithDigit (normalizedName ic r) \<longrightarrow>
        ResourceName ic r =
          take 12 (''r'' @ hexString (md5Sum (if normalizedName ic r = [] then ID r
                                              else origCaseName ic r)))
        \<and> length (ResourceName ic r) = 12)
   \<and> (normalizedName ic r \<noteq> [] \<and> \<not> startsWithDigit (normalizedName ic r) \<longrightarrow>
        ResourceName ic r = normalizedName ic r)
   \<and> (startsWithDigit (normalizedName ic r) \<and> startsWithDigit (normalizedName ic r') \<longrightarrow>
        (ResourceName ic r = ResourceName ic r'
           \<longleftrightarrow> take 11 (hexString (md5Sum (origCaseName ic r)))
               = take 11 (hexString (md5Sum (origCaseName ic r')))))"
proof (intro conjI impI)
  assume h: "prefix ic = [] \<and> ic_nameFixes ic = nameFixes"
  show "ResourceName ic (named ''General Policy - All Users'') = ''general_policy_all_users''"
    using h ResourceName_named[of "''General Policy - All Users''" ic] name_general_policy
    by simp
  show "ResourceName ic (named ''0A'') \<noteq> ResourceName ic (named ''0a'')"
    using h ResourceName_named[of "''0A''" ic] ResourceName_named[of "''0a''" ic] name_0A name_0a
    by simp
next
  assume "normalizedName ic r = [] \<or> startsWithDigit (normalizedName ic r)"
  then show "ResourceName ic r =
          take 12 (''r'' @ hexString (md5Sum (if normalizedName ic r = [] then ID r
                                              else origCaseName ic r)))"
    by (auto simp add: ResourceName_def Let_def)
  then show "length (ResourceName ic r) = 12"
    by (simp only: length_fallback)
next
  assume "normalizedName ic r \<noteq> [] \<and> \<not> startsWithDigit (normalizedName ic r)"
  then show "ResourceName ic r = normalizedName ic r"
    by (simp add: ResourceName_def Let_def)
next
  assume h: "startsWithDigit (normalizedName ic r) \<and> startsWithDigit (normalizedName ic r')"
  then have "normalizedName ic r \<noteq> []" "normalizedName ic r' \<noteq> []"
    by (auto simp add: startsWithDigit_def)
  with h show "ResourceName ic r = ResourceName ic r'
           \<longleftrightarrow> take 11 (hexString (md5Sum (origCaseName ic r)))
               = take 11 (hexString (md5Sum (origCaseName ic r')))"
    by (simp add: ResourceName_def Let_def)
qed

theorem ResourceName_naming_witness:
  "ResourceName namingContext (named ''General Policy - All Users'') = ''general_policy_all_users''
   \<and> ResourceName namingContext (named ''0A'') \<noteq> ResourceName namingContext (named ''0a'')
   \<and> startsWithDigit (normalizedName namingContext (named ''0A''))
   \<and> ResourceName namingContext (named ''0A'') = take 12 (''r'' @ hexString (md5Sum ''0A''))
   \<and> length (ResourceName namingContext (named ''0A'')) = 12"
proof -
  have p: "prefix namingContext = [] \<and> ic_nameFixes namingContext = nameFixes"
    by (simp add: namingContext_def emptyContext_def)
  have n: "normalizedName namingContext (named ''0A'') = ''0a''"
    by code_simp
  have d: "startsWithDigit ''0a''"
    by (simp add: startsWithDigit_def isDigit_def)
  have o: "origCaseName namingContext (named ''0A'') = ''0A''"
    by (simp add: origCaseName_def rawName_def named_def namingContext_def emptyContext_def)
  note T = ResourceName_naming[of namingContext "named ''0A''" "named ''0A''"]
  have ex: "ResourceName namingContext (named ''General Policy - All Users'')
              = ''general_policy_all_users''
      \<and> ResourceName namingContext (named ''0A'') \<noteq> ResourceName namingContext (named ''0a'')"
    using T p by blast
  have dg: "startsWithDigit (normalizedName namingContext (named ''0A''))"
    using n d by simp
  have "ResourceName namingContext (named ''0A'') =
          take 12 (''r'' @ hexString (md5Sum (if normalizedName namingContext (named ''0A'') = []
             then ID (named ''0A'') else origCaseName namingContext (named ''0A''))))
        \<and> length (ResourceName namingContext (named ''0A'')) = 12"
    using T dg by blast
  then have fb: "ResourceName namingContext (named ''0A'') =
          take 12 (''r'' @ hexString (md5Sum ''0A''))
        \<and> length (ResourceName namingContext (named ''0A'')) = 12"
    by (simp only: n o list.distinct if_False length_fallback)
  show ?thesis
    using ex dg fb by blast
qed

text \<open>
  The claim as it is written does not hold for every two raw names that lower-case to the
  same string. \<open>A\<close> and \<open>a\<close> are both named \<open>a\<close>: a name that does not begin with
  a digit is not hashed. And two names that are hashed can meet in the twelve characters
  that are kept: the two spellings below differ, lower-case to the same string, begin with
  a digit, and both get the final name \<open>r88a0f1c54b2\<close>.
\<close>

theorem ResourceName_naming_counterexample:
  "''A'' \<noteq> ''a'' \<and> ToLower ''A'' = ToLower ''a''
   \<and> ResourceName namingContext (named ''A'') = ''a''
   \<and> ResourceName namingContext (named ''a'') = ''a''
   \<and> ''0eXPORTedResouRcENamecOLlision'' \<noteq> ''0EXporteDReSOUrCeNamecollision''
   \<and> ToLower ''0eXPORTedResouRcENamecOLlision'' = ToLower ''0EXporteDReSOUrCeNamecollision''
   \<and> startsWithDigit (normalizedName namingContext (named ''0eXPORTedResouRcENamecOLlision''))
   \<and> ResourceName namingContext (named ''0eXPORTedResouRcENamecOLlision'') = ''r88a0f1c54b2''
   \<and> ResourceName namingContext (named ''0EXporteDReSOUrCeNamecollision'') = ''r88a0f1c54b2''"
  by code_simp

subsection \<open>The incremental merge of one output file\<close>

lemma entries_simps:
  "entries [] = []" "entries (None # ch) = entries ch" "entries (Some d # ch) = d # entries ch"
  by (simp_all add: entries_def)

lemma writeLoop_appending:
  "length ch \<le> wg \<Longrightarrow>
   \<exists>nr'. writeLoop (\<lambda>content text. (content @ text, True)) ch (tf, nr, sent, wg) =
      Inr (tf @ concat (map ResourceBody (entries ch)), nr',
           sent @ filter (\<lambda>c. c \<noteq> []) (map ImportCommand (entries ch)),
           wg + length (filter (\<lambda>c. c \<noteq> []) (map ImportCommand (entries ch))) - length ch)
    \<and> set nr' = set nr \<union> BlockName ` set (entries ch)"
proof (induction ch arbitrary: tf nr sent wg)
  case Nil
  then show ?case by (simp add: entries_simps)
next
  case (Cons f ch)
  show ?case
  proof (cases f)
    case None
    from Cons.prems have "length ch \<le> wg - 1" "wg \<noteq> 0"
      by simp_all
    from Cons.IH[OF this(1), of tf nr sent] this(2) None show ?thesis
      by (auto simp add: entries_simps)
  next
    case (Some d)
    show ?thesis
    proof (cases "ImportCommand d = []")
      case True
      from Cons.prems have le: "length ch \<le> wg - 1" and nz: "wg \<noteq> 0"
        by simp_all
      from Cons.IH[OF le, of "tf @ ResourceBody d" "List.insert (BlockName d) nr" sent]
        nz Some True
      show ?thesis by (auto simp add: entries_simps)
    next
      case False
      from Cons.prems have le: "length ch \<le> wg + 1 - 1"
        by simp
      from Cons.IH[OF le, of "tf @ ResourceBody d" "List.insert (BlockName d) nr"
          "sent @ [ImportCommand d]"] Some False Cons.prems
      show ?thesis by (auto simp add: entries_simps)
    qed
  qed
qed

lemma handleResourceWrite_appending:
  assumes inc: "incremental ic" and wg: "length ch \<le> waitGroup ic"
  shows "handleResourceWrite (appendingEnv (ReadOk (Some old))) ic before ch =
           Inr (ic\<lparr>waitGroup := waitGroup ic
                      + length (filter (\<lambda>c. c \<noteq> []) (map ImportCommand (entries ch)))
                      - length ch\<rparr>,
                (if entries ch = []
                    \<and> filter (\<lambda>b. generateBlockFullName b \<notin> BlockName ` set (entries ch)) old
                        = []
                 then Absent
                 else Present (concat (map ResourceBody (entries ch))
                        @ fileBytes (filter (\<lambda>b. generateBlockFullName b
                                                  \<notin> BlockName ` set (entries ch)) old))),
                filter (\<lambda>c. c \<noteq> []) (map ImportCommand (entries ch)))"
proof -
  from writeLoop_appending[OF wg, of "[]" "[]" "[]"]
  obtain nr' where w: "writeLoop (\<lambda>content text. (content @ text, True)) ch
        ([], [], [], waitGroup ic) =
      Inr (concat (map ResourceBody (entries ch)), nr',
           filter (\<lambda>c. c \<noteq> []) (map ImportCommand (entries ch)),
           waitGroup ic + length (filter (\<lambda>c. c \<noteq> []) (map ImportCommand (entries ch)))
             - length ch)"
    and s: "set nr' = BlockName ` set (entries ch)"
    by auto
  have e: "nr' = [] \<longleftrightarrow> entries ch = []"
    using s by (metis image_is_empty set_empty)
  show ?thesis
    using inc by (auto simp add: handleResourceWrite_def appendingEnv_def w s e Let_def)
qed

text \<open>
  C2. The incremental merge of one output file. In an incremental run whose file system
  answers every call with success, let \<open>old\<close> be the blocks parsed from the prior
  file and \<open>ch\<close> the queue of newly generated blocks. The file written is, in this
  order, the bodies of the new blocks as they arrived and then the bytes of every prior
  block whose full name (type and labels joined by underscores) is not the name of a new
  block; a prior block with the name of a new one is left out. When there are no new
  blocks and no prior block is kept, the file is removed. In particular, for a prior file
  with the blocks A and B and a run that generates B and C, where A has neither name, the
  file is the new B, the new C and the prior A.
\<close>

theorem incremental_merge:
  assumes "incremental ic" and "length ch \<le> waitGroup ic"
  shows "(\<exists>ic'. handleResourceWrite (appendingEnv (ReadOk (Some old))) ic before ch =
           Inr (ic',
                (if entries ch = []
                    \<and> filter (\<lambda>b. generateBlockFullName b \<notin> BlockName ` set (entries ch)) old
                        = []
                 then Absent
                 else Present (concat (map ResourceBody (entries ch))
                        @ fileBytes (filter (\<lambda>b. generateBlockFullName b
                                                  \<notin> BlockName ` set (entries ch)) old))),
                filter (\<lambda>c. c \<noteq> []) (map ImportCommand (entries ch))))
     \<and> (\<forall>a b b' c'. old = [a, b] \<and> ch = [Some b', Some c']
            \<and> BlockName b' = generateBlockFullName b
            \<and> generateBlockFullName a \<noteq> BlockName b'
            \<and> generateBlockFullName a \<noteq> BlockName c'
          \<longrightarrow> (\<exists>ic' sent. handleResourceWrite (appendingEnv (ReadOk (Some old))) ic before ch =
                 Inr (ic', Present (ResourceBody b' @ ResourceBody c' @ blockBytes a), sent)))"
proof -
  note H = handleResourceWrite_appending[OF assms, of old before]
  show ?thesis
  proof (intro conjI allI impI)
    show "\<exists>ic'. handleResourceWrite (appendingEnv (ReadOk (Some old))) ic before ch =
           Inr (ic',
                (if entries ch = []
                    \<and> filter (\<lambda>b. generateBlockFullName b \<notin> BlockName ` set (entries ch)) old
                        = []
                 then Absent
                 else Present (concat (map ResourceBody (entries ch))
                        @ fileBytes (filter (\<lambda>b. generateBlockFullName b
                                                  \<notin> BlockName ` set (entries ch)) old))),
                filter (\<lambda>c. c \<noteq> []) (map ImportCommand (entries ch)))"
      using H by blast
  next
    fix a b b' c'
    assume h: "old = [a, b] \<and> ch = [Some b', Some c']
            \<and> BlockName b' = generateBlockFullName b
            \<and> generateBlockFullName a \<noteq> BlockName b'
            \<and> generateBlockFullName a \<noteq> BlockName c'"
    then have "entries ch = [b', c']"
      and "filter (\<lambda>x. generateBlockFullName x \<notin> BlockName ` set (entries ch)) old = [a]"
      by (auto simp add: entries_simps)
    with H show "\<exists>ic' sent. handleResourceWrite (appendingEnv (ReadOk (Some old))) ic before ch =
                 Inr (ic', Present (ResourceBody b' @ ResourceBody c' @ blockBytes a), sent)"
      by (simp add: fileBytes_def)
  qed
qed

theorem incremental_merge_witness:
  "incremental (emptyContext\<lparr>incremental := True, waitGroup := 2\<rparr>)
   \<and> handleResourceWrite (appendingEnv (ReadOk (Some [blockA, blockB])))
        (emptyContext\<lparr>incremental := True, waitGroup := 2\<rparr>)
        (Present (blockBytes blockA @ blockBytes blockB)) [Some newB, Some newC] =
      Inr (emptyContext\<lparr>incremental := True, waitGroup := 1\<rparr>,
           Present (''resource databricks_job b { new };''
                    @ ''resource databricks_job c { new };''
                    @ ''resource databricks_job a { old };''),
           [''terraform import databricks_job.b 2''])
   \<and> handleResourceWrite (appendingEnv (ReadOk (Some [])))
        (emptyContext\<lparr>incremental := True, waitGroup := 2\<rparr>) Absent [] =
      Inr (emptyContext\<lparr>incremental := True, waitGroup := 2\<rparr>, Absent, [])"
proof -
  let ?ic = "emptyContext\<lparr>incremental := True, waitGroup := 2\<rparr>"
  have i: "incremental ?ic" and w: "length [Some newB, Some newC] \<le> waitGroup ?ic"
    by (simp_all add: emptyContext_def)
  from incremental_merge[OF i w, of "[blockA, blockB]" "Present (blockBytes blockA @ blockBytes blockB)"]
  obtain ic' where "handleResourceWrite (appendingEnv (ReadOk (Some [blockA, blockB]))) ?ic
        (Present (blockBytes blockA @ blockBytes blockB)) [Some newB, Some newC] =
      Inr (ic',
        (if entries [Some newB, Some newC] = []
            \<and> filter (\<lambda>b. generateBlockFullName b
                  \<notin> BlockName ` set (entries [Some newB, Some newC])) [blockA, blockB] = []
         then Absent
         else Present (concat (map ResourceBody (entries [Some newB, Some newC]))
                @ fileBytes (filter (\<lambda>b. generateBlockFullName b
                       \<notin> BlockName ` set (entries [Some newB, Some newC])) [blockA, blockB]))),
        filter (\<lambda>c. c \<noteq> []) (map ImportCommand (entries [Some newB, Some newC])))"
    by blast
  then have "snd (projr (handleResourceWrite (appendingEnv (ReadOk (Some [blockA, blockB]))) ?ic
        (Present (blockBytes blockA @ blockBytes blockB)) [Some newB, Some newC])) =
      (Present (''resource databricks_job b { new };''
                    @ ''resource databricks_job c { new };''
                    @ ''resource databricks_job a { old };''),
           [''terraform import databricks_job.b 2''])"
    by (simp add: entries_simps fileBytes_def generateBlockFullName_def blockA_def blockB_def
          newB_def newC_def)
  moreover have "handleResourceWrite (appendingEnv (ReadOk (Some [blockA, blockB]))) ?ic
        (Present (blockBytes blockA @ blockBytes blockB)) [Some newB, Some newC] =
      Inr (emptyContext\<lparr>incremental := True, waitGroup := 1\<rparr>,
           Present (''resource databricks_job b { new };''
                    @ ''resource databricks_job c { new };''
                    @ ''resource databricks_job a { old };''),
           [''terraform import databricks_job.b 2''])"
    by (simp add: handleResourceWrite_def appendingEnv_def emptyContext_def fileBytes_def
          generateBlockFullName_def blockA_def blockB_def newB_def newC_def)
  moreover have "handleResourceWrite (appendingEnv (ReadOk (Some [])))
        ?ic Absent [] = Inr (?ic, Absent, [])"
    by (simp add: handleResourceWrite_def appendingEnv_def emptyContext_def fileBytes_def)
  ultimately show ?thesis
    using i by blast
qed

subsection \<open>The orchestrator\<close>

lemma runSetup_events:
  "runSetup env ic = Ok (ic1, events) \<Longrightarrow> events = [] \<or> events = [MkdirAll (Directory ic)]"
  by (auto simp add: runSetup_def runIncremental_def runDirectory_def runClients_def Let_def
        split: if_splits outcome.splits option.splits statOutcome.splits prod.splits)

text \<open>
  C5. The no-resources failure. Take any run that passes the setup of \<^verbatim>\<open>Run\<close> and
  reaches the listing stage, and in which the Scope is empty when the listing stage has
  finished. Then \<^verbatim>\<open>Run\<close> returns the error \<open>no resources to import\<close>, and the only
  thing it may have done to the file system is to make the output directory: it has
  created no file, so no configuration file, no import script and no variables file.
\<close>

theorem no_resources_error:
  assumes "runSetup env ic = Ok (ic1, events)"
      and "Scope (runListing env ic1) = []"
  shows "Run env ic = Ok (Some ''no resources to import'', runListing env ic1, events)
     \<and> (events = [] \<or> events = [MkdirAll (Directory ic)])
     \<and> (\<forall>p. Create p \<notin> set events)"
  using assms runSetup_events[OF assms(1)]
  by (auto simp add: Run_def)

theorem no_resources_error_witness:
  "runSetup quietEnv (clusterContext\<lparr>Directory := ''/tmp/out''\<rparr>) =
      Ok (clusterContext\<lparr>Directory := ''/tmp/out''\<rparr>, [MkdirAll ''/tmp/out''])
   \<and> Scope (runListing quietEnv (clusterContext\<lparr>Directory := ''/tmp/out''\<rparr>)) = []
   \<and> Run quietEnv (clusterContext\<lparr>Directory := ''/tmp/out''\<rparr>) =
      Ok (Some ''no resources to import'', clusterContext\<lparr>Directory := ''/tmp/out''\<rparr>,
          [MkdirAll ''/tmp/out''])"
proof -
  let ?ic = "clusterContext\<lparr>Directory := ''/tmp/out''\<rparr>"
  have s: "runSetup quietEnv ?ic = Ok (?ic, [MkdirAll ''/tmp/out''])"
    by (simp add: runSetup_def runIncremental_def runDirectory_def runClients_def quietEnv_def
          clusterContext_def emptyContext_def ToUpper_def toUpperByte_def)
  have l: "Scope (runListing quietEnv ?ic) = []"
    by (simp add: quietEnv_def clusterContext_def emptyContext_def)
  have r: "runListing quietEnv ?ic = ?ic"
    by (simp add: quietEnv_def)
  have "Run quietEnv ?ic =
      Ok (Some ''no resources to import'', runListing quietEnv ?ic, [MkdirAll ''/tmp/out''])"
    using no_resources_error[OF s l] by blast
  then show ?thesis
    using s l by (simp add: r)
qed

subsection \<open>Concurrent callers of Emit and Add\<close>

text \<open>
  One caller that takes its two steps without interruption does what \<^verbatim>\<open>Emit\<close> (or
  \<^verbatim>\<open>Add\<close>) does as a whole.
\<close>

lemma Emit_steps: "Emit E ic r = (if EmitAdmits E ic r then EmitProceed E ic r else ic)"
  by (cases "MatchPair E r")
     (simp add: Emit_def EmitAdmits_def EmitProceed_def split: option.splits)

lemma Add_steps: "Add E ic r = (if AddAdmits E ic r then AddProceed E ic r else (ic, r))"
  by (simp add: Add_def AddAdmits_def AddProceed_def)

lemma emitSchedule_alone: "emitSchedule E r (ic, [AtTest]) [0, 0] = (Emit E ic r, [Finished])"
  by (simp add: emitSchedule_def emitStep_def Emit_steps)

lemma addSchedule_alone: "addSchedule E ((ic, r), [AtTest]) [0, 0] = (Add E ic r, [Finished])"
  by (simp add: addSchedule_def addStep_def Add_steps)

text \<open>
  C1. Emit is meant to deduplicate: a resource whose identity is recorded is not emitted
  again. For calls that do not overlap this holds (see \<open>Emit_sequential_dedup\<close> above).
  It does not hold for two callers that overlap. When both callers of \<^verbatim>\<open>Emit\<close> for a
  new cluster take their test before either marks the identity, both pass, and both send
  the resource: the queue holds it twice and the outstanding-work counter is two. The
  same happens in \<^verbatim>\<open>Add\<close>: when two handlers test before either marks, both append,
  and the State Approximation and the Scope hold the resource twice. In the schedules
  where one caller finishes before the other starts there is one queue entry, one State
  Approximation entry and one Scope entry.
\<close>

theorem Emit_race:
  "emitSchedule specExterns exampleCluster (clusterContext, [AtTest, AtTest]) [0, 0, 1, 1] =
     (clusterContext\<lparr>importing := [''.databricks_cluster.c1'' \<mapsto> False], waitGroup := 1,
        defaultChannel := [exampleCluster]\<rparr>, [Finished, Finished])
   \<and> emitSchedule specExterns exampleCluster (clusterContext, [AtTest, AtTest]) [0, 1, 0, 1] =
     (clusterContext\<lparr>importing := [''.databricks_cluster.c1'' \<mapsto> False], waitGroup := 2,
        defaultChannel := [exampleCluster, exampleCluster]\<rparr>, [Finished, Finished])
   \<and> State (fst (fst (addSchedule specExterns ((clusterContext, statefulCluster),
          [AtTest, AtTest]) [0, 0, 1, 1]))) = [clusterApproximation]
   \<and> Scope (fst (fst (addSchedule specExterns ((clusterContext, statefulCluster),
          [AtTest, AtTest]) [0, 0, 1, 1]))) = [statefulCluster\<lparr>Mode := ''managed''\<rparr>]
   \<and> State (fst (fst (addSchedule specExterns ((clusterContext, statefulCluster),
          [AtTest, AtTest]) [0, 1, 0, 1]))) = [clusterApproximation, clusterApproximation]
   \<and> Scope (fst (fst (addSchedule specExterns ((clusterContext, statefulCluster),
          [AtTest, AtTest]) [0, 1, 0, 1]))) =
        [statefulCluster\<lparr>Mode := ''managed''\<rparr>, statefulCluster\<lparr>Mode := ''managed''\<rparr>]"
proof -
  let ?r1 = "statefulCluster\<lparr>Mode := ''managed''\<rparr>"
  let ?ic1 = "clusterContext\<lparr>importing := [''.databricks_cluster.c1'' \<mapsto> True],
      State := [clusterApproximation], Scope := [?r1]\<rparr>"
  let ?ic2 = "clusterContext\<lparr>importing := [''.databricks_cluster.c1'' \<mapsto> True,
        ''managed.databricks_cluster.c1'' \<mapsto> True],
      State := [clusterApproximation, clusterApproximation], Scope := [?r1, ?r1]\<rparr>"
  have e0: "EmitAdmits specExterns clusterContext exampleCluster"
    by (simp add: EmitAdmits_def Has_def HasInState_def isImporting_def isServiceEnabled_def
          specExterns_def specMatchPair_def specGet_def clusterContext_def emptyContext_def
          exampleCluster_def)
  have e1: "EmitProceed specExterns clusterContext exampleCluster =
      clusterContext\<lparr>importing := [''.databricks_cluster.c1'' \<mapsto> False], waitGroup := 1,
        defaultChannel := [exampleCluster]\<rparr>"
    by (simp add: EmitProceed_def setImportingState_def specExterns_def clusterContext_def
          emptyContext_def exampleCluster_def)
  have e2: "\<not> EmitAdmits specExterns
      (clusterContext\<lparr>importing := [''.databricks_cluster.c1'' \<mapsto> False], waitGroup := Suc 0,
        defaultChannel := [exampleCluster]\<rparr>) exampleCluster"
    by (simp add: EmitAdmits_def Has_def HasInState_def isImporting_def isServiceEnabled_def
          specExterns_def specMatchPair_def specGet_def clusterContext_def emptyContext_def
          exampleCluster_def)
  have e3: "EmitProceed specExterns
      (clusterContext\<lparr>importing := [''.databricks_cluster.c1'' \<mapsto> False], waitGroup := Suc 0,
        defaultChannel := [exampleCluster]\<rparr>) exampleCluster =
      clusterContext\<lparr>importing := [''.databricks_cluster.c1'' \<mapsto> False], waitGroup := 2,
        defaultChannel := [exampleCluster, exampleCluster]\<rparr>"
    by (simp add: EmitProceed_def setImportingState_def specExterns_def clusterContext_def
          emptyContext_def exampleCluster_def)
  have a0: "AddAdmits specExterns clusterContext statefulCluster"
    by (simp add: AddAdmits_def HasInState_def isImporting_def specExterns_def
          specMatchPair_def specGet_def clusterContext_def emptyContext_def
          statefulCluster_def exampleCluster_def)
  have a1: "AddProceed specExterns clusterContext statefulCluster = (?ic1, ?r1)"
    by (simp add: AddProceed_def Let_def setImportingState_def specExterns_def
          clusterContext_def emptyContext_def statefulCluster_def exampleCluster_def
          clusterApproximation_def)
  have a2: "\<not> AddAdmits specExterns ?ic1 ?r1"
    by (simp add: AddAdmits_def HasInState_def isImporting_def specExterns_def
          specMatchPair_def specGet_def clusterContext_def emptyContext_def
          statefulCluster_def exampleCluster_def clusterApproximation_def)
  have a3: "AddProceed specExterns ?ic1 ?r1 = (?ic2, ?r1)"
    by (simp add: AddProceed_def Let_def setImportingState_def specExterns_def
          clusterContext_def emptyContext_def statefulCluster_def exampleCluster_def
          clusterApproximation_def fun_upd_twist)
  have s1: "addSchedule specExterns ((clusterContext, statefulCluster), [AtTest, AtTest])
      [0, 0, 1, 1] = ((?ic1, ?r1), [Finished, Finished])"
    by (simp add: addSchedule_def addStep_def a0 a1 a2)
  have s2: "addSchedule specExterns ((clusterContext, statefulCluster), [AtTest, AtTest])
      [0, 1, 0, 1] = ((?ic2, ?r1), [Finished, Finished])"
    by (simp add: addSchedule_def addStep_def a0 a1 a3)
  show ?thesis
    unfolding s1 s2
    by (simp add: emitSchedule_def emitStep_def e0 e1 e2 e3)
qed

end
